theory Spec2Isabelle
  imports Main "HOL-Library.Sublist"
begin

section \<open>Data model of the proxy monitor\<close>

text \<open>
  The component under study is \<^verbatim>\<open>src/components/proxy/ProxyMonitor.tsx\<close>.
  A JavaScript number is a double. The numbers of the component hold whole numbers
  (status codes, counts), so a number is modelled as the integer it holds; comparisons
  of doubles are exact, and an addition is rounded to the nearest double, as
  \<open>js_add\<close> below writes out. An optional field (\<^verbatim>\<open>model?: string\<close>) is an
  \<open>option\<close>.
\<close>

text \<open>\<^verbatim>\<open>interface ProxyRequestLog\<close> (lines 9-22). The field \<^verbatim>\<open>id\<close> is
  named \<open>log_id\<close> here, since \<open>id\<close> is the identity function of HOL.\<close>

record proxy_request_log =
  log_id :: string
  timestamp :: int
  "method" :: string
  url :: string
  status :: int
  duration :: int
  model :: "string option"
  error :: "string option"
  request_body :: "string option"
  response_body :: "string option"
  input_tokens :: "int option"
  output_tokens :: "int option"

text \<open>\<^verbatim>\<open>interface ProxyStats\<close> (lines 24-28).\<close>

record proxy_stats =
  total_requests :: int
  success_count :: int
  error_count :: int

text \<open>The five \<^verbatim>\<open>useState\<close> cells of the component (lines 36-40); \<^verbatim>\<open>filter\<close>
  is named \<open>filter_text\<close>, since \<open>filter\<close> is the list function of HOL.\<close>

record monitor_state =
  logs :: "proxy_request_log list"
  stats :: proxy_stats
  filter_text :: string
  selectedLog :: "proxy_request_log option"
  isLoggingEnabled :: bool

definition zero_stats :: proxy_stats where
  "zero_stats = \<lparr>total_requests = 0, success_count = 0, error_count = 0\<rparr>"

definition initial_state :: monitor_state where
  "initial_state =
     \<lparr>logs = [], stats = zero_stats, filter_text = [], selectedLog = None,
      isLoggingEnabled = False\<rparr>"

section \<open>The live event handler (lines 84-96)\<close>

text \<open>Line 87: \<^verbatim>\<open>setLogs(prev => [newLog, ...prev].slice(0, 1000))\<close>.\<close>

definition insert_log ::
  "proxy_request_log \<Rightarrow> proxy_request_log list \<Rightarrow> proxy_request_log list" where
  "insert_log newLog prev = take 1000 (newLog # prev)"

text \<open>
  The \<^verbatim>\<open>+\<close> of JavaScript on whole numbers. A double has a significand of 53 bits,
  so an integer of magnitude \<open>m\<close> with more than 53 bits is a double only when it is a
  multiple of \<open>2 ^ (bit_length m - 53)\<close>. \<open>round_double\<close> rounds an integer to the
  nearest double, and to the one with the even significand when two are equally near
  (the rounding of IEEE 754 that JavaScript uses); \<open>js_add\<close> rounds the exact sum. The
  sums of the component add 0 or 1 to a counter and stay below \<open>2 ^ 1024\<close>, where a
  double would overflow.
\<close>

fun bit_length :: "nat \<Rightarrow> nat" where
  "bit_length n = (if n = 0 then 0 else Suc (bit_length (n div 2)))"

declare bit_length.simps [simp del]

definition round_double :: "int \<Rightarrow> int" where
  "round_double x =
     (let m = nat \<bar>x\<bar>;
          u = 2 ^ (bit_length m - 53);
          q = m div u;
          r = m mod u;
          q' = (if u < 2 * r \<or> (2 * r = u \<and> odd q) then q + 1 else q)
      in sgn x * int (q' * u))"

definition js_add :: "int \<Rightarrow> int \<Rightarrow> int" where
  "js_add a b = round_double (a + b)"

text \<open>Lines 88-95: the updater handed to \<^verbatim>\<open>setStats\<close>.\<close>

definition applyInsert :: "proxy_request_log \<Rightarrow> proxy_stats \<Rightarrow> proxy_stats" where
  "applyInsert newLog prev =
     (let isSuccess = (status newLog \<ge> 200 \<and> status newLog < 400) in
      \<lparr>total_requests = js_add (total_requests prev) 1,
       success_count = js_add (success_count prev) (if isSuccess then 1 else 0),
       error_count = js_add (error_count prev) (if isSuccess then 0 else 1)\<rparr>)"

text \<open>The callback registered for \<^verbatim>\<open>proxy://request\<close>: both updaters are applied
  to the current state (they are functional updates, so they see the latest value).
  The \<^verbatim>\<open>console.log\<close> of line 86 changes nothing of the state and is left out.\<close>

definition on_proxy_request :: "proxy_request_log \<Rightarrow> monitor_state \<Rightarrow> monitor_state" where
  "on_proxy_request newLog s =
     s\<lparr>logs := insert_log newLog (logs s), stats := applyInsert newLog (stats s)\<rparr>"

text \<open>A sequence of live events, delivered one at a time in list order.\<close>

definition deliver :: "monitor_state \<Rightarrow> proxy_request_log list \<Rightarrow> monitor_state" where
  "deliver s events = foldl (\<lambda>st newLog. on_proxy_request newLog st) s events"

text \<open>The quantity the stats invariant says is zero.\<close>

definition stats_defect :: "proxy_stats \<Rightarrow> int" where
  "stats_defect st = total_requests st - (success_count st + error_count st)"

text \<open>All three counters have magnitude at most \<open>b\<close>.\<close>

definition counters_within :: "int \<Rightarrow> proxy_stats \<Rightarrow> bool" where
  "counters_within b st =
     (\<bar>total_requests st\<bar> \<le> b \<and> \<bar>success_count st\<bar> \<le> b \<and> \<bar>error_count st\<bar> \<le> b)"

section \<open>The filter (lines 106-111)\<close>

text \<open>
  The string builtins the filter calls. \<^verbatim>\<open>String.prototype.toLowerCase\<close> is modelled
  on the ASCII letters (every other character is left as it is),
  \<^verbatim>\<open>String.prototype.includes\<close> searches the needle at every position of the
  haystack, and \<^verbatim>\<open>Number.prototype.toString\<close> gives the decimal digits of an
  integer, after a minus sign when it is negative.
\<close>

definition lower_char :: "char \<Rightarrow> char" where
  "lower_char c =
     (let n = (of_char c :: nat) in if 65 \<le> n \<and> n \<le> 90 then char_of (n + 32) else c)"

definition toLowerCase :: "string \<Rightarrow> string" where
  "toLowerCase s = map lower_char s"

fun str_includes :: "string \<Rightarrow> string \<Rightarrow> bool" where
  "str_includes [] needle = (needle = [])"
| "str_includes (c # cs) needle = (prefix needle (c # cs) \<or> str_includes cs needle)"

fun digits :: "nat \<Rightarrow> string" where
  "digits n =
     (if n < 10 then [''0123456789'' ! n]
      else digits (n div 10) @ [''0123456789'' ! (n mod 10)])"

declare digits.simps [simp del]

definition toString :: "int \<Rightarrow> string" where
  "toString i = (if i < 0 then CHR ''-'' # digits (nat (- i)) else digits (nat i))"

text \<open>Reading a string of decimal digits back as a number, to state that \<open>digits\<close>
  writes the decimal form.\<close>

definition digit_value :: "char \<Rightarrow> nat" where
  "digit_value c = of_char c - 48"

definition decimal_value :: "string \<Rightarrow> nat" where
  "decimal_value s = foldl (\<lambda>a c. 10 * a + digit_value c) 0 s"

text \<open>The predicate of \<^verbatim>\<open>logs.filter\<close>. In \<^verbatim>\<open>log.model && ...\<close> an absent model
  and the empty string are both falsy.\<close>

definition matches :: "proxy_request_log \<Rightarrow> string \<Rightarrow> bool" where
  "matches entry flt =
     (str_includes (toLowerCase (url entry)) (toLowerCase flt)
      \<or> str_includes (toLowerCase (method entry)) (toLowerCase flt)
      \<or> (case model entry of
            None \<Rightarrow> False
          | Some m \<Rightarrow> m \<noteq> [] \<and> str_includes (toLowerCase m) (toLowerCase flt))
      \<or> str_includes (toString (status entry)) flt)"

definition filteredLogs :: "monitor_state \<Rightarrow> proxy_request_log list" where
  "filteredLogs s = filter (\<lambda>entry. matches entry (filter_text s)) (logs s)"

text \<open>
  The filter as the specification words it: case-insensitive substring containment, as a
  disjunction over \<open>url\<close>, \<open>method\<close>, \<open>model\<close> (only if present) and a substring match
  against the decimal string form of \<open>status\<close>.
\<close>

definition ci_substring :: "string \<Rightarrow> string \<Rightarrow> bool" where
  "ci_substring query field = sublist (toLowerCase query) (toLowerCase field)"

definition spec_matches :: "proxy_request_log \<Rightarrow> string \<Rightarrow> bool" where
  "spec_matches entry query =
     (ci_substring query (url entry)
      \<or> ci_substring query (method entry)
      \<or> (\<exists>m. model entry = Some m \<and> ci_substring query m)
      \<or> sublist query (toString (status entry)))"

section \<open>The backend and the effects of the component\<close>

text \<open>
  \<^verbatim>\<open>AppConfig\<close> comes from \<^verbatim>\<open>types/config\<close>; the component reads and writes only
  \<^verbatim>\<open>config.proxy.enable_logging\<close>, so every other field is carried in a type
  parameter. \<^verbatim>\<open>loadData\<close> guards against a missing \<^verbatim>\<open>config\<close> and a missing
  \<^verbatim>\<open>config.proxy\<close>; both are options.
\<close>

record 'p proxy_config =
  enable_logging :: bool
  proxy_other :: 'p

record ('p, 'c) app_config =
  proxy :: "'p proxy_config option"
  config_other :: 'c

text \<open>What a rejected promise or a failed property access throws.\<close>

datatype js_error = Rejected string | TypeError

text \<open>The commands the component sends with \<^verbatim>\<open>invoke\<close>, with their arguments.\<close>

datatype ('p, 'c) command =
    Load_config
  | Save_config "('p, 'c) app_config"
  | Set_proxy_monitor_enabled bool
  | Get_proxy_logs int
  | Get_proxy_stats
  | Clear_proxy_logs

text \<open>
  The environment of one run: how each command is answered (rejected with an error, or
  resolved with a value), and how the confirmation dialog \<^verbatim>\<open>ask\<close> is answered. No
  procedure of the component sends the same command twice, so one answer per command
  describes every run. The history reply is \<open>None\<close> when it is not an array
  (\<^verbatim>\<open>Array.isArray\<close> is false), the stats and the configuration reply are \<open>None\<close> when
  they are falsy.
\<close>

record ('p, 'c) backend =
  load_config :: "js_error + ('p, 'c) app_config option"
  save_config :: "('p, 'c) app_config \<Rightarrow> js_error + unit"
  set_proxy_monitor_enabled :: "bool \<Rightarrow> js_error + unit"
  get_proxy_logs :: "int \<Rightarrow> js_error + proxy_request_log list option"
  get_proxy_stats :: "js_error + proxy_stats option"
  clear_proxy_logs :: "js_error + unit"
  ask :: "js_error + bool"

text \<open>What a run can change: the state of the component, the commands sent so far
  (oldest first) and the lines written with \<^verbatim>\<open>console.error\<close>.\<close>

record ('p, 'c) world =
  component :: monitor_state
  issued :: "('p, 'c) command list"
  console :: "(string \<times> js_error) list"

text \<open>
  An asynchronous procedure of the component is a function from the world to a result
  and the world after it; the result is the error thrown (\<open>Inl\<close>) or the value
  returned (\<open>Inr\<close>). A state setter takes effect at once, and a procedure runs without
  a live event or another procedure in between its steps.
\<close>

type_synonym ('w, 'a) prog = "'w \<Rightarrow> (js_error + 'a) \<times> 'w"

definition resolve :: "'a \<Rightarrow> ('w, 'a) prog" where
  "resolve a w = (Inr a, w)"

definition throw :: "js_error \<Rightarrow> ('w, 'a) prog" where
  "throw e w = (Inl e, w)"

text \<open>\<^verbatim>\<open>const x = await m; rest(x)\<close>: an error of \<open>m\<close> skips the rest.\<close>

definition await :: "('w, 'a) prog \<Rightarrow> ('a \<Rightarrow> ('w, 'b) prog) \<Rightarrow> ('w, 'b) prog" where
  "await m rest w = (case m w of (Inl e, w') \<Rightarrow> (Inl e, w') | (Inr a, w') \<Rightarrow> rest a w')"

text \<open>\<^verbatim>\<open>try { body } catch (e) { handler(e) }\<close>.\<close>

definition try_catch :: "('w, 'a) prog \<Rightarrow> (js_error \<Rightarrow> ('w, 'a) prog) \<Rightarrow> ('w, 'a) prog" where
  "try_catch body handler w =
     (case body w of (Inl e, w') \<Rightarrow> handler e w' | (Inr a, w') \<Rightarrow> (Inr a, w'))"

definition invoke ::
  "('p, 'c) command \<Rightarrow> js_error + 'a \<Rightarrow> (('p, 'c) world, 'a) prog" where
  "invoke cmd reply w = (reply, w\<lparr>issued := issued w @ [cmd]\<rparr>)"

definition ask_dialog :: "js_error + bool \<Rightarrow> (('p, 'c) world, bool) prog" where
  "ask_dialog reply w = (reply, w)"

definition console_error :: "string \<Rightarrow> js_error \<Rightarrow> (('p, 'c) world, unit) prog" where
  "console_error msg e w = (Inr (), w\<lparr>console := console w @ [(msg, e)]\<rparr>)"

definition setLogs :: "proxy_request_log list \<Rightarrow> (('p, 'c) world, unit) prog" where
  "setLogs v w = (Inr (), w\<lparr>component := (component w)\<lparr>logs := v\<rparr>\<rparr>)"

definition setStats :: "proxy_stats \<Rightarrow> (('p, 'c) world, unit) prog" where
  "setStats v w = (Inr (), w\<lparr>component := (component w)\<lparr>stats := v\<rparr>\<rparr>)"

definition setIsLoggingEnabled :: "bool \<Rightarrow> (('p, 'c) world, unit) prog" where
  "setIsLoggingEnabled v w = (Inr (), w\<lparr>component := (component w)\<lparr>isLoggingEnabled := v\<rparr>\<rparr>)"

text \<open>\<^verbatim>\<open>loadData\<close> (lines 42-59): one \<^verbatim>\<open>try\<close> block around the whole sequence.\<close>

definition loadData :: "('p, 'c) backend \<Rightarrow> (('p, 'c) world, unit) prog" where
  "loadData be =
     try_catch
       (await (invoke Load_config (load_config be)) (\<lambda>config.
        await (case config of
                 None \<Rightarrow> resolve ()
               | Some c \<Rightarrow>
                   (case proxy c of
                      None \<Rightarrow> resolve ()
                    | Some p \<Rightarrow>
                        await (setIsLoggingEnabled (enable_logging p)) (\<lambda>_.
                        invoke (Set_proxy_monitor_enabled (enable_logging p))
                          (set_proxy_monitor_enabled be (enable_logging p))))) (\<lambda>_.
        await (invoke (Get_proxy_logs 100) (get_proxy_logs be 100)) (\<lambda>history.
        await (case history of None \<Rightarrow> resolve () | Some h \<Rightarrow> setLogs h) (\<lambda>_.
        await (invoke Get_proxy_stats (get_proxy_stats be)) (\<lambda>currentStats.
        (case currentStats of None \<Rightarrow> resolve () | Some st \<Rightarrow> setStats st)))))))
       (\<lambda>e. console_error ''Failed to load proxy data'' e)"

text \<open>Line 66, \<^verbatim>\<open>config.proxy.enable_logging = newState\<close>: a TypeError when
  \<^verbatim>\<open>config\<close> or \<^verbatim>\<open>config.proxy\<close> is missing.\<close>

definition assign_enable_logging ::
  "('p, 'c) app_config option \<Rightarrow> bool \<Rightarrow> ('w, ('p, 'c) app_config) prog" where
  "assign_enable_logging config newState =
     (case config of
        None \<Rightarrow> throw TypeError
      | Some c \<Rightarrow>
          (case proxy c of
             None \<Rightarrow> throw TypeError
           | Some p \<Rightarrow> resolve (c\<lparr>proxy := Some (p\<lparr>enable_logging := newState\<rparr>)\<rparr>)))"

text \<open>\<^verbatim>\<open>toggleLogging\<close> (lines 61-76); \<^verbatim>\<open>isLoggingEnabled\<close> is read from the
  state at the time of the call.\<close>

definition toggleLogging :: "('p, 'c) backend \<Rightarrow> (('p, 'c) world, unit) prog" where
  "toggleLogging be w =
     (let newState = \<not> isLoggingEnabled (component w) in
      try_catch
        (await (invoke Load_config (load_config be)) (\<lambda>config.
         await (assign_enable_logging config newState) (\<lambda>config'.
         await (invoke (Save_config config') (save_config be config')) (\<lambda>_.
         await (invoke (Set_proxy_monitor_enabled newState)
                  (set_proxy_monitor_enabled be newState)) (\<lambda>_.
         setIsLoggingEnabled newState)))))
        (\<lambda>e. console_error ''Failed to toggle logging'' e) w)"

text \<open>\<^verbatim>\<open>clearLogs\<close> (lines 122-137). The dialog is awaited outside the \<^verbatim>\<open>try\<close>
  block, so its rejection leaves \<^verbatim>\<open>clearLogs\<close> with the error.\<close>

definition clearLogs :: "('p, 'c) backend \<Rightarrow> (('p, 'c) world, unit) prog" where
  "clearLogs be =
     await (ask_dialog (ask be)) (\<lambda>confirmed.
       if confirmed then
         try_catch
           (await (invoke Clear_proxy_logs (clear_proxy_logs be)) (\<lambda>_.
            await (setLogs []) (\<lambda>_.
            setStats \<lparr>total_requests = 0, success_count = 0, error_count = 0\<rparr>)))
           (\<lambda>e. console_error ''Failed to clear logs'' e)
       else resolve ())"

text \<open>The world in which the component is mounted: the initial state, nothing sent,
  nothing written.\<close>

definition initial_world :: "('p, 'c) world" where
  "initial_world = \<lparr>component = initial_state, issued = [], console = []\<rparr>"

text \<open>The commands sent between two worlds of one run.\<close>

definition sent :: "('p, 'c) world \<Rightarrow> ('p, 'c) world \<Rightarrow> ('p, 'c) command list" where
  "sent w w' = drop (length (issued w)) (issued w')"

section \<open>Concrete records and backends\<close>

text \<open>A record with the given url, method, model and status.\<close>

definition example_log ::
  "string \<Rightarrow> string \<Rightarrow> string option \<Rightarrow> int \<Rightarrow> proxy_request_log" where
  "example_log u m mo st =
     \<lparr>log_id = ''req'', timestamp = 0, method = m, url = u, status = st, duration = 12,
      model = mo, error = None, request_body = None, response_body = None,
      input_tokens = None, output_tokens = None\<rparr>"

definition example_config :: "bool \<Rightarrow> (unit, unit) app_config" where
  "example_config b =
     \<lparr>proxy = Some \<lparr>enable_logging = b, proxy_other = ()\<rparr>, config_other = ()\<rparr>"

text \<open>A backend on which every command succeeds: logging is enabled in the stored
  configuration, the history fetch returns the first \<open>limit\<close> records of \<open>history\<close>,
  the stats fetch returns \<open>snap\<close>, and the dialog is confirmed.\<close>

definition healthy_backend :: "proxy_request_log list \<Rightarrow> proxy_stats \<Rightarrow> (unit, unit) backend" where
  "healthy_backend history snap =
     \<lparr>load_config = Inr (Some (example_config True)),
      save_config = (\<lambda>_. Inr ()),
      set_proxy_monitor_enabled = (\<lambda>_. Inr ()),
      get_proxy_logs = (\<lambda>limit. Inr (Some (take (nat limit) history))),
      get_proxy_stats = Inr (Some snap),
      clear_proxy_logs = Inr (),
      ask = Inr True\<rparr>"

text \<open>Numbered records: record \<open>i\<close> of the list has status \<open>i\<close>.\<close>

definition numbered_logs :: "nat \<Rightarrow> proxy_request_log list" where
  "numbered_logs n = map (\<lambda>i. example_log ''/v1/messages'' ''POST'' None (int i)) [0..<n]"

text \<open>The same backend with one command that is rejected.\<close>

definition unavailable :: js_error where
  "unavailable = Rejected ''backend unavailable''"

definition example_stats :: proxy_stats where
  "example_stats = \<lparr>total_requests = 3, success_count = 2, error_count = 1\<rparr>"

definition config_down_backend :: "(unit, unit) backend" where
  "config_down_backend =
     (healthy_backend (numbered_logs 3) example_stats)\<lparr>load_config := Inl unavailable\<rparr>"

definition history_down_backend :: "(unit, unit) backend" where
  "history_down_backend =
     (healthy_backend (numbered_logs 3) example_stats)\<lparr>get_proxy_logs := (\<lambda>_. Inl unavailable)\<rparr>"

definition stats_down_backend :: "(unit, unit) backend" where
  "stats_down_backend =
     (healthy_backend (numbered_logs 3) example_stats)\<lparr>get_proxy_stats := Inl unavailable\<rparr>"

definition save_down_backend :: "(unit, unit) backend" where
  "save_down_backend =
     (healthy_backend (numbered_logs 3) example_stats)\<lparr>save_config := (\<lambda>_. Inl unavailable)\<rparr>"

definition clear_down_backend :: "(unit, unit) backend" where
  "clear_down_backend =
     (healthy_backend (numbered_logs 3) example_stats)\<lparr>clear_proxy_logs := Inl unavailable\<rparr>"

text \<open>A backend whose history fetch ignores the limit and returns 1001 records, and a
  stats snapshot whose counters do not add up.\<close>

definition oversize_backend :: "(unit, unit) backend" where
  "oversize_backend =
     (healthy_backend [] example_stats)\<lparr>get_proxy_logs := (\<lambda>_. Inr (Some (numbered_logs 1001)))\<rparr>"

definition skewed_stats :: proxy_stats where
  "skewed_stats = \<lparr>total_requests = 5, success_count = 2, error_count = 1\<rparr>"

text \<open>A snapshot that is off by one, with counters at the end of the range in which
  every integer is a double.\<close>

definition saturated_stats :: proxy_stats where
  "saturated_stats =
     \<lparr>total_requests = 2 ^ 53, success_count = 2 ^ 53 - 1, error_count = 0\<rparr>"

text \<open>A world in which recording is on and three live events have arrived.\<close>

definition busy_world :: "(unit, unit) world" where
  "busy_world =
     initial_world\<lparr>component :=
       deliver (initial_state\<lparr>isLoggingEnabled := True\<rparr>) (numbered_logs 3)\<rparr>"

section \<open>Properties of the addition\<close>

text \<open>Every integer of magnitude up to \<open>2 ^ 53\<close> is a double, so a sum in this range
  is exact; the first sum that is rounded is \<open>2 ^ 53 + 1\<close>.\<close>

lemma bit_length_le: "n < 2 ^ k \<Longrightarrow> bit_length n \<le> k"
proof (induction k arbitrary: n)
  case 0
  then show ?case by (simp add: bit_length.simps)
next
  case (Suc k)
  show ?case
  proof (cases "n = 0")
    case True
    then show ?thesis by (simp add: bit_length.simps)
  next
    case False
    from Suc.prems have "n div 2 < 2 ^ k" by simp
    then have "bit_length (n div 2) \<le> k" by (rule Suc.IH)
    with False show ?thesis by (subst bit_length.simps) simp
  qed
qed

lemma round_double_small:
  assumes "\<bar>x\<bar> < 2 ^ 53"
  shows "round_double x = x"
proof -
  from assms have "nat \<bar>x\<bar> < 2 ^ 53"
    by (simp add: nat_less_iff)
  then have "bit_length (nat \<bar>x\<bar>) \<le> 53" by (rule bit_length_le)
  then have "bit_length (nat \<bar>x\<bar>) - 53 = 0" by simp
  then show ?thesis
    by (simp add: round_double_def Let_def mult_sgn_abs)
qed

lemma bit_length_eq: "2 ^ k \<le> n \<Longrightarrow> n < 2 ^ Suc k \<Longrightarrow> bit_length n = Suc k"
proof (induction k arbitrary: n)
  case 0
  then have "n = 1" by simp
  then show ?case by (simp add: bit_length.simps [of "Suc 0"] bit_length.simps [of 0])
next
  case (Suc k)
  from Suc.prems have "2 ^ k \<le> n div 2" and "n div 2 < 2 ^ Suc k" and "n \<noteq> 0"
    by auto
  then show ?case
    using Suc.IH [of "n div 2"] by (subst bit_length.simps) simp
qed

lemma bit_length_54: "2 ^ 53 \<le> n \<Longrightarrow> n < 2 ^ 54 \<Longrightarrow> bit_length n - 53 = 1"
  using bit_length_eq [of 53 n] by simp

lemma round_double_2_53: "round_double (2 ^ 53) = 2 ^ 53"
proof -
  have "bit_length (nat \<bar>2 ^ 53 :: int\<bar>) - 53 = 1"
    by (rule bit_length_54) simp_all
  then show ?thesis
    by (simp add: round_double_def Let_def)
qed

lemma round_double_neg_2_53: "round_double (- (2 ^ 53)) = - (2 ^ 53)"
proof -
  have "bit_length (nat \<bar>- (2 ^ 53) :: int\<bar>) - 53 = 1"
    by (rule bit_length_54) simp_all
  then show ?thesis
    by (simp add: round_double_def Let_def)
qed

lemma round_double_exact:
  assumes "\<bar>x\<bar> \<le> 2 ^ 53"
  shows "round_double x = x"
proof -
  from assms have "\<bar>x\<bar> < 2 ^ 53 \<or> x = 2 ^ 53 \<or> x = - (2 ^ 53)"
    by arith
  then show ?thesis
    using round_double_small [of x] round_double_2_53 round_double_neg_2_53 by blast
qed

lemma js_add_exact: "\<bar>a + b\<bar> \<le> 2 ^ 53 \<Longrightarrow> js_add a b = a + b"
  by (simp only: js_add_def round_double_exact)

lemma js_add_saturated: "js_add (2 ^ 53) 1 = 2 ^ 53"
proof -
  have "bit_length (nat \<bar>2 ^ 53 + 1 :: int\<bar>) - 53 = 1"
    by (rule bit_length_54) simp_all
  then show ?thesis
    by (simp add: js_add_def round_double_def Let_def)
qed

lemma js_add_beyond: "js_add (2 ^ 53 + 2) 1 = 2 ^ 53 + 4"
proof -
  have "bit_length (nat \<bar>2 ^ 53 + 2 + 1 :: int\<bar>) - 53 = 1"
    by (rule bit_length_54) simp_all
  then show ?thesis
    by (simp add: js_add_def round_double_def Let_def)
qed


section \<open>Properties of the event handler\<close>

lemma deliver_Nil: "deliver s [] = s"
  by (simp add: deliver_def)

lemma deliver_Cons: "deliver s (e # es) = deliver (on_proxy_request e s) es"
  by (simp add: deliver_def)

lemma deliver_snoc: "deliver s (es @ [e]) = on_proxy_request e (deliver s es)"
  by (simp add: deliver_def)

lemma stats_on_proxy_request: "stats (on_proxy_request r s) = applyInsert r (stats s)"
  by (simp add: on_proxy_request_def)

lemma logs_on_proxy_request: "logs (on_proxy_request r s) = insert_log r (logs s)"
  by (simp add: on_proxy_request_def)

text \<open>What the updater computes, with the additions as they are in the source.\<close>

lemma applyInsert_cases:
  "applyInsert r st =
     (if 200 \<le> status r \<and> status r < 400
      then \<lparr>total_requests = js_add (total_requests st) 1,
            success_count = js_add (success_count st) 1,
            error_count = js_add (error_count st) 0\<rparr>
      else \<lparr>total_requests = js_add (total_requests st) 1,
            success_count = js_add (success_count st) 0,
            error_count = js_add (error_count st) 1\<rparr>)"
  by (simp add: applyInsert_def Let_def)

text \<open>While the counters are below \<open>2 ^ 53\<close> in magnitude, the additions are exact.\<close>

lemma js_add_one: "\<bar>c\<bar> \<le> b \<Longrightarrow> b < 2 ^ 53 \<Longrightarrow> js_add c 1 = c + 1"
  by (rule js_add_exact) arith

lemma js_add_zero: "\<bar>c\<bar> \<le> b \<Longrightarrow> b < 2 ^ 53 \<Longrightarrow> js_add c 0 = c"
  using js_add_exact [of c 0] by simp

lemma applyInsert_exact:
  assumes "counters_within b st" and "b < 2 ^ 53"
  shows "applyInsert r st =
     \<lparr>total_requests = total_requests st + 1,
      success_count = success_count st + (if 200 \<le> status r \<and> status r < 400 then 1 else 0),
      error_count = error_count st + (if 200 \<le> status r \<and> status r < 400 then 0 else 1)\<rparr>"
proof -
  from assms have t: "\<bar>total_requests st\<bar> \<le> b" and s: "\<bar>success_count st\<bar> \<le> b"
    and e: "\<bar>error_count st\<bar> \<le> b"
    by (simp_all add: counters_within_def)
  note b = \<open>b < 2 ^ 53\<close>
  show ?thesis
    by (simp add: applyInsert_cases js_add_one [OF t b] js_add_one [OF s b]
        js_add_one [OF e b] js_add_zero [OF s b] js_add_zero [OF e b])
qed

lemma abs_bump:
  fixes c b :: int
  assumes "\<bar>c\<bar> \<le> b"
  shows "\<bar>c + 1\<bar> \<le> b + 1" and "\<bar>c\<bar> \<le> b + 1"
  using assms by arith+

lemma applyInsert_within:
  assumes "counters_within b st" and "b < 2 ^ 53"
  shows "counters_within (b + 1) (applyInsert r st)"
proof -
  from assms have t: "\<bar>total_requests st\<bar> \<le> b" and s: "\<bar>success_count st\<bar> \<le> b"
    and e: "\<bar>error_count st\<bar> \<le> b"
    by (simp_all add: counters_within_def)
  show ?thesis
    by (simp add: applyInsert_exact [OF assms] counters_within_def
        abs_bump [OF t] abs_bump [OF s] abs_bump [OF e])
qed

lemma applyInsert_defect:
  assumes "counters_within b st" and "b < 2 ^ 53"
  shows "stats_defect (applyInsert r st) = stats_defect st"
  by (simp add: applyInsert_exact [OF assms] stats_defect_def)

lemma deliver_exact:
  assumes "counters_within b (stats s)" and "b + int (length es) \<le> 2 ^ 53"
  shows "counters_within (b + int (length es)) (stats (deliver s es))
     \<and> stats_defect (stats (deliver s es)) = stats_defect (stats s)
     \<and> total_requests (stats (deliver s es)) = total_requests (stats s) + int (length es)"
  using assms
proof (induction es arbitrary: s b)
  case Nil
  then show ?case by (simp add: deliver_Nil)
next
  case (Cons e es)
  from Cons.prems have b: "b < 2 ^ 53" and b1: "b + 1 + int (length es) \<le> 2 ^ 53"
    by simp_all
  from Cons.prems(1) b
  have w: "counters_within (b + 1) (stats (on_proxy_request e s))"
    by (simp add: stats_on_proxy_request applyInsert_within)
  from Cons.prems(1) b
  have d: "stats_defect (stats (on_proxy_request e s)) = stats_defect (stats s)"
    by (simp add: stats_on_proxy_request applyInsert_defect)
  from Cons.prems(1) b
  have t: "total_requests (stats (on_proxy_request e s)) = total_requests (stats s) + 1"
    by (simp add: stats_on_proxy_request applyInsert_exact)
  from Cons.IH [OF w b1] d t show ?case
    by (simp add: deliver_Cons add.assoc)
qed

lemma counters_within_zero: "counters_within 0 (stats (s\<lparr>stats := zero_stats\<rparr>))"
  by (simp add: counters_within_def zero_stats_def)

lemma deliver_zero:
  assumes "int (length es) \<le> 2 ^ 53"
  shows "counters_within (int (length es)) (stats (deliver (s\<lparr>stats := zero_stats\<rparr>) es))
     \<and> total_requests (stats (deliver (s\<lparr>stats := zero_stats\<rparr>) es))
         = success_count (stats (deliver (s\<lparr>stats := zero_stats\<rparr>) es))
           + error_count (stats (deliver (s\<lparr>stats := zero_stats\<rparr>) es))
     \<and> total_requests (stats (deliver (s\<lparr>stats := zero_stats\<rparr>) es)) = int (length es)"
proof -
  from assms have "0 + int (length es) \<le> 2 ^ 53" by simp
  from deliver_exact [OF counters_within_zero this, of s]
  show ?thesis by (simp add: stats_defect_def zero_stats_def)
qed

lemma deliver_step:
  assumes "k < length events"
  shows "stats (deliver s (take (Suc k) events))
     = applyInsert (events ! k) (stats (deliver s (take k events)))"
  using assms by (simp add: take_Suc_conv_app_nth deliver_snoc stats_on_proxy_request)

lemma one_of_two:
  "(a + (if c then 1 else 0) = a + 1 \<and> b + (if c then 0 else 1) = b)
   \<or> (a + (if c then 1 else 0) = a \<and> b + (if c then 0 else 1) = b + 1)" for a b :: int
  by simp

lemma take_take_Cons: "take (Suc n) (x # take (Suc n) ys) = take (Suc n) (x # ys)"
  by (simp add: min_def)

lemma insert_log_take: "insert_log r (take 1000 xs) = insert_log r xs"
proof -
  have "take (Suc 999) (r # take (Suc 999) xs) = take (Suc 999) (r # xs)"
    by (rule take_take_Cons)
  then show ?thesis by (simp add: insert_log_def)
qed

lemma deliver_logs: "logs (deliver s es) = take 1000 (rev es @ logs s)" if "es \<noteq> []"
  using that
proof (induction es rule: rev_nonempty_induct)
  case (single e)
  then show ?case
    by (simp add: deliver_Cons deliver_Nil logs_on_proxy_request insert_log_def)
next
  case (snoc e es)
  have "logs (deliver s (es @ [e])) = insert_log e (take 1000 (rev es @ logs s))"
    by (simp add: deliver_snoc logs_on_proxy_request snoc.IH)
  also have "\<dots> = insert_log e (rev es @ logs s)"
    by (rule insert_log_take)
  finally show ?case by (simp add: insert_log_def)
qed

text \<open>
  Claim C3. A live event applies the paired store insert and stats update. Starting from
  the zero stats, for every sequence of at most \<open>2 ^ 53\<close> live events and after every
  prefix \<open>take n events\<close> of it, \<open>total = success + error\<close> holds and \<open>total\<close> is the
  number of events so far; the event number \<open>k\<close> applies the updater to the stats before
  it, adds exactly 1 to \<open>total\<close> and exactly 1 to exactly one of \<open>success\<close> and \<open>error\<close>.
  (Beyond \<open>2 ^ 53\<close> events the additions of the source round.)
\<close>

theorem C3_stats_invariant:
  "stats (on_proxy_request r s) = applyInsert r (stats s)
   \<and> logs (on_proxy_request r s) = insert_log r (logs s)
   \<and> (int (length events) \<le> 2 ^ 53 \<longrightarrow>
        (let st = stats (deliver (s\<lparr>stats := zero_stats\<rparr>) (take n events)) in
           total_requests st = success_count st + error_count st
           \<and> total_requests st = int (length (take n events)))
        \<and> (k < length events \<longrightarrow>
             (let before = stats (deliver (s\<lparr>stats := zero_stats\<rparr>) (take k events));
                  after = stats (deliver (s\<lparr>stats := zero_stats\<rparr>) (take (Suc k) events))
              in after = applyInsert (events ! k) before
                 \<and> total_requests after = total_requests before + 1
                 \<and> ((success_count after = success_count before + 1
                      \<and> error_count after = error_count before)
                     \<or> (success_count after = success_count before
                      \<and> error_count after = error_count before + 1)))))"
  unfolding Let_def
proof (intro conjI impI)
  show "stats (on_proxy_request r s) = applyInsert r (stats s)"
    by (rule stats_on_proxy_request)
  show "logs (on_proxy_request r s) = insert_log r (logs s)"
    by (rule logs_on_proxy_request)
next
  assume len: "int (length events) \<le> 2 ^ 53"
  then have "int (length (take n events)) \<le> 2 ^ 53" by simp
  from deliver_zero [OF this, of s]
  show "total_requests (stats (deliver (s\<lparr>stats := zero_stats\<rparr>) (take n events)))
      = success_count (stats (deliver (s\<lparr>stats := zero_stats\<rparr>) (take n events)))
        + error_count (stats (deliver (s\<lparr>stats := zero_stats\<rparr>) (take n events)))"
    and "total_requests (stats (deliver (s\<lparr>stats := zero_stats\<rparr>) (take n events)))
      = int (length (take n events))"
    by blast+
next
  assume len: "int (length events) \<le> 2 ^ 53" and k: "k < length events"
  let ?before = "stats (deliver (s\<lparr>stats := zero_stats\<rparr>) (take k events))"
  let ?after = "stats (deliver (s\<lparr>stats := zero_stats\<rparr>) (take (Suc k) events))"
  show step: "?after = applyInsert (events ! k) ?before"
    using k by (rule deliver_step)
  from len k have "int (length (take k events)) \<le> 2 ^ 53" by simp
  from deliver_zero [OF this, of s]
  have "counters_within (int (length (take k events))) ?before"
    by blast
  with k have w: "counters_within (int k) ?before" by simp
  from len k have b: "int k < 2 ^ 53" by linarith
  note ex = applyInsert_exact [OF w b, of "events ! k"]
  show "total_requests ?after = total_requests ?before + 1"
    by (simp add: step ex)
  show "(success_count ?after = success_count ?before + 1
          \<and> error_count ?after = error_count ?before)
        \<or> (success_count ?after = success_count ?before
          \<and> error_count ?after = error_count ?before + 1)"
    unfolding step ex by (simp only: proxy_stats.simps one_of_two)
qed

lemma numbered_logs_length: "length (numbered_logs n) = n"
  by (simp add: numbered_logs_def)

theorem C3_stats_invariant_witness:
  "int (length (numbered_logs 3)) \<le> 2 ^ 53
   \<and> 0 < length (numbered_logs 3)
   \<and> total_requests (stats (deliver (initial_state\<lparr>stats := zero_stats\<rparr>)
         (take 3 (numbered_logs 3))))
       = int (length (take 3 (numbered_logs 3)))
   \<and> total_requests (stats (deliver (initial_state\<lparr>stats := zero_stats\<rparr>)
         (take 3 (numbered_logs 3))))
       = success_count (stats (deliver (initial_state\<lparr>stats := zero_stats\<rparr>)
           (take 3 (numbered_logs 3))))
         + error_count (stats (deliver (initial_state\<lparr>stats := zero_stats\<rparr>)
           (take 3 (numbered_logs 3))))
   \<and> total_requests (stats (deliver (initial_state\<lparr>stats := zero_stats\<rparr>)
         (take (Suc 0) (numbered_logs 3))))
       = total_requests (stats (deliver (initial_state\<lparr>stats := zero_stats\<rparr>)
           (take 0 (numbered_logs 3)))) + 1"
proof -
  have l: "int (length (numbered_logs 3)) \<le> 2 ^ 53"
    by (simp add: numbered_logs_length)
  have k: "0 < length (numbered_logs 3)"
    by (simp add: numbered_logs_length)
  from C3_stats_invariant [where events = "numbered_logs 3" and n = 3 and k = 0
      and s = initial_state and r = "example_log [] [] None 200", unfolded Let_def] l k
  show ?thesis by blast
qed

lemma insert_log_length: "length (insert_log r xs) = min (length xs + 1) 1000"
  by (simp add: insert_log_def)

lemma deliver_length: "es \<noteq> [] \<Longrightarrow> length (logs (deliver s es)) \<le> 1000"
  by (simp add: deliver_logs)

lemma take_rev_tl: "take (length xs - 1) (rev xs) = rev (tl xs)"
  by (cases xs) (simp_all add: take_rev)

lemma deliver_1001:
  assumes "length rs = 1001"
  shows "logs (deliver (s\<lparr>logs := []\<rparr>) rs) = rev (tl rs)"
proof -
  from assms have "rs \<noteq> []" by auto
  then have "logs (deliver (s\<lparr>logs := []\<rparr>) rs) = take 1000 (rev rs)"
    by (simp add: deliver_logs)
  also have "\<dots> = take (length rs - 1) (rev rs)" by (simp add: assms)
  also have "\<dots> = rev (tl rs)" by (rule take_rev_tl)
  finally show ?thesis .
qed

text \<open>
  Claim C4. From every store, a live event puts the new record at the front and cuts
  the list to its first 1000 records, so the store holds at most 1000 records after any
  event; 1001 records inserted one at a time into the empty store leave 1000 records,
  newest first, without the first one inserted.
\<close>

theorem C4_insert_capacity:
  "logs (on_proxy_request r s) = take 1000 (r # logs s)
   \<and> length (logs (on_proxy_request r s)) \<le> 1000
   \<and> (rs \<noteq> [] \<longrightarrow> length (logs (deliver s rs)) \<le> 1000)
   \<and> (length rs = 1001 \<longrightarrow>
        logs (deliver (s\<lparr>logs := []\<rparr>) rs) = rev (tl rs)
        \<and> length (logs (deliver (s\<lparr>logs := []\<rparr>) rs)) = 1000)"
proof (intro conjI impI)
  show "logs (on_proxy_request r s) = take 1000 (r # logs s)"
    by (simp add: logs_on_proxy_request insert_log_def)
  show "length (logs (on_proxy_request r s)) \<le> 1000"
    by (simp add: logs_on_proxy_request insert_log_length)
  show "length (logs (deliver s rs)) \<le> 1000" if "rs \<noteq> []"
    using that by (rule deliver_length)
  show "logs (deliver (s\<lparr>logs := []\<rparr>) rs) = rev (tl rs)" if "length rs = 1001"
    using that by (rule deliver_1001)
  show "length (logs (deliver (s\<lparr>logs := []\<rparr>) rs)) = 1000" if "length rs = 1001"
    using that by (simp add: deliver_1001)
qed

theorem C4_insert_capacity_witness:
  "numbered_logs 1001 \<noteq> []
   \<and> length (numbered_logs 1001) = 1001
   \<and> length (logs (deliver initial_state (numbered_logs 1001))) \<le> 1000
   \<and> logs (deliver (initial_state\<lparr>logs := []\<rparr>) (numbered_logs 1001)) = rev (tl (numbered_logs 1001))
   \<and> length (logs (deliver (initial_state\<lparr>logs := []\<rparr>) (numbered_logs 1001))) = 1000"
proof -
  have len: "length (numbered_logs 1001) = 1001" by (rule numbered_logs_length)
  then have ne: "numbered_logs 1001 \<noteq> []" by auto
  from C4_insert_capacity [of "example_log [] [] None 0" initial_state "numbered_logs 1001"] len ne
  show ?thesis by blast
qed

lemma applyInsert_zero:
  "applyInsert r zero_stats =
     \<lparr>total_requests = 1,
      success_count = (if 200 \<le> status r \<and> status r < 400 then 1 else 0),
      error_count = (if 200 \<le> status r \<and> status r < 400 then 0 else 1)\<rparr>"
proof -
  have "counters_within 0 zero_stats"
    by (simp add: counters_within_def zero_stats_def)
  then have "applyInsert r zero_stats =
     \<lparr>total_requests = total_requests zero_stats + 1,
      success_count = success_count zero_stats
        + (if 200 \<le> status r \<and> status r < 400 then 1 else 0),
      error_count = error_count zero_stats
        + (if 200 \<le> status r \<and> status r < 400 then 0 else 1)\<rparr>"
    by (rule applyInsert_exact) simp
  then show ?thesis by (simp add: zero_stats_def)
qed

lemma classified_counters:
  assumes "\<bar>success_count st\<bar> < 2 ^ 53" and "\<bar>error_count st\<bar> < 2 ^ 53"
  shows "success_count (applyInsert r st)
       = success_count st + (if 200 \<le> status r \<and> status r < 400 then 1 else 0)"
    and "error_count (applyInsert r st)
       = error_count st + (if 200 \<le> status r \<and> status r < 400 then 0 else 1)"
proof -
  have b: "(2 ^ 53 - 1 :: int) < 2 ^ 53" by simp
  from assms have s: "\<bar>success_count st\<bar> \<le> 2 ^ 53 - 1" and e: "\<bar>error_count st\<bar> \<le> 2 ^ 53 - 1"
    by simp_all
  show "success_count (applyInsert r st)
       = success_count st + (if 200 \<le> status r \<and> status r < 400 then 1 else 0)"
    by (simp add: applyInsert_cases js_add_one [OF s b] js_add_zero [OF s b])
  show "error_count (applyInsert r st)
       = error_count st + (if 200 \<le> status r \<and> status r < 400 then 0 else 1)"
    by (simp add: applyInsert_cases js_add_one [OF e b] js_add_zero [OF e b])
qed

text \<open>
  Claim C5. The classification inside the stats updater: a record is counted as a
  success exactly when \<open>200 \<le> status < 400\<close>, and as an error otherwise: the test
  decides which of the two counters the 1 is added to, and, while the counters are below
  \<open>2 ^ 53\<close> (where adding 1 to a double is exact), the success counter moves exactly
  for these records and the error counter exactly for the others. So status 200 and 399
  count as success, 400 and 404 as error.
\<close>

theorem C5_classification:
  "applyInsert r st =
     (if 200 \<le> status r \<and> status r < 400
      then \<lparr>total_requests = js_add (total_requests st) 1,
            success_count = js_add (success_count st) 1,
            error_count = js_add (error_count st) 0\<rparr>
      else \<lparr>total_requests = js_add (total_requests st) 1,
            success_count = js_add (success_count st) 0,
            error_count = js_add (error_count st) 1\<rparr>)
   \<and> (\<bar>success_count st\<bar> < 2 ^ 53 \<and> \<bar>error_count st\<bar> < 2 ^ 53 \<longrightarrow>
        (success_count (applyInsert r st) = success_count st + 1)
          = (200 \<le> status r \<and> status r < 400)
        \<and> (error_count (applyInsert r st) = error_count st + 1)
          = (\<not> (200 \<le> status r \<and> status r < 400))
        \<and> (error_count (applyInsert r st) = error_count st)
          = (200 \<le> status r \<and> status r < 400)
        \<and> (success_count (applyInsert r st) = success_count st)
          = (\<not> (200 \<le> status r \<and> status r < 400)))
   \<and> applyInsert (r\<lparr>status := 200\<rparr>) zero_stats
       = \<lparr>total_requests = 1, success_count = 1, error_count = 0\<rparr>
   \<and> applyInsert (r\<lparr>status := 399\<rparr>) zero_stats
       = \<lparr>total_requests = 1, success_count = 1, error_count = 0\<rparr>
   \<and> applyInsert (r\<lparr>status := 400\<rparr>) zero_stats
       = \<lparr>total_requests = 1, success_count = 0, error_count = 1\<rparr>
   \<and> applyInsert (r\<lparr>status := 404\<rparr>) zero_stats
       = \<lparr>total_requests = 1, success_count = 0, error_count = 1\<rparr>"
proof (intro conjI impI)
  show "applyInsert r st =
     (if 200 \<le> status r \<and> status r < 400
      then \<lparr>total_requests = js_add (total_requests st) 1,
            success_count = js_add (success_count st) 1,
            error_count = js_add (error_count st) 0\<rparr>
      else \<lparr>total_requests = js_add (total_requests st) 1,
            success_count = js_add (success_count st) 0,
            error_count = js_add (error_count st) 1\<rparr>)"
    by (rule applyInsert_cases)
next
  assume "\<bar>success_count st\<bar> < 2 ^ 53 \<and> \<bar>error_count st\<bar> < 2 ^ 53"
  then have s: "\<bar>success_count st\<bar> < 2 ^ 53" and e: "\<bar>error_count st\<bar> < 2 ^ 53"
    by simp_all
  note c = classified_counters [OF s e, of r]
  show "(success_count (applyInsert r st) = success_count st + 1)
          = (200 \<le> status r \<and> status r < 400)"
    by (simp add: c)
  show "(error_count (applyInsert r st) = error_count st + 1)
          = (\<not> (200 \<le> status r \<and> status r < 400))"
    by (simp add: c)
  show "(error_count (applyInsert r st) = error_count st)
          = (200 \<le> status r \<and> status r < 400)"
    by (simp add: c)
  show "(success_count (applyInsert r st) = success_count st)
          = (\<not> (200 \<le> status r \<and> status r < 400))"
    by (simp add: c)
next
  show "applyInsert (r\<lparr>status := 200\<rparr>) zero_stats
       = \<lparr>total_requests = 1, success_count = 1, error_count = 0\<rparr>"
    by (simp add: applyInsert_zero)
  show "applyInsert (r\<lparr>status := 399\<rparr>) zero_stats
       = \<lparr>total_requests = 1, success_count = 1, error_count = 0\<rparr>"
    by (simp add: applyInsert_zero)
  show "applyInsert (r\<lparr>status := 400\<rparr>) zero_stats
       = \<lparr>total_requests = 1, success_count = 0, error_count = 1\<rparr>"
    by (simp add: applyInsert_zero)
  show "applyInsert (r\<lparr>status := 404\<rparr>) zero_stats
       = \<lparr>total_requests = 1, success_count = 0, error_count = 1\<rparr>"
    by (simp add: applyInsert_zero)
qed

theorem C5_classification_witness:
  "\<bar>success_count example_stats\<bar> < 2 ^ 53
   \<and> \<bar>error_count example_stats\<bar> < 2 ^ 53
   \<and> success_count (applyInsert (example_log [] [] None 200) example_stats)
       = success_count example_stats + 1
   \<and> error_count (applyInsert (example_log [] [] None 200) example_stats)
       = error_count example_stats
   \<and> error_count (applyInsert (example_log [] [] None 404) example_stats)
       = error_count example_stats + 1
   \<and> success_count (applyInsert (example_log [] [] None 404) example_stats)
       = success_count example_stats"
proof -
  have b: "\<bar>success_count example_stats\<bar> < 2 ^ 53 \<and> \<bar>error_count example_stats\<bar> < 2 ^ 53"
    by (simp add: example_stats_def)
  have ok: "200 \<le> status (example_log [] [] None 200)
      \<and> status (example_log [] [] None 200) < 400"
    by (simp add: example_log_def)
  have no: "\<not> (200 \<le> status (example_log [] [] None 404)
      \<and> status (example_log [] [] None 404) < 400)"
    by (simp add: example_log_def)
  from C5_classification [where r = "example_log [] [] None 200" and st = example_stats] b ok
  have 1: "success_count (applyInsert (example_log [] [] None 200) example_stats)
       = success_count example_stats + 1
     \<and> error_count (applyInsert (example_log [] [] None 200) example_stats)
       = error_count example_stats"
    by blast
  from C5_classification [where r = "example_log [] [] None 404" and st = example_stats] b no
  have 2: "error_count (applyInsert (example_log [] [] None 404) example_stats)
       = error_count example_stats + 1
     \<and> success_count (applyInsert (example_log [] [] None 404) example_stats)
       = success_count example_stats"
    by blast
  from b 1 2 show ?thesis by blast
qed

section \<open>Properties of the filter\<close>

text \<open>\<open>toString\<close> writes the decimal form: on examples, and read back in general.\<close>

lemma toString_404: "toString 404 = ''404''"
  by code_simp

lemma toString_zero: "toString 0 = ''0''"
  by code_simp

lemma toString_negative: "toString (- 5) = ''-5''"
  by code_simp

lemma digit_value_nth:
  assumes "k < 10"
  shows "digit_value (''0123456789'' ! k) = k"
proof -
  from assms
  have "k = 0 \<or> k = 1 \<or> k = 2 \<or> k = 3 \<or> k = 4 \<or> k = 5 \<or> k = 6 \<or> k = 7 \<or> k = 8 \<or> k = 9"
    by arith
  then show ?thesis
    by (elim disjE) (simp_all add: digit_value_def)
qed

lemma decimal_value_snoc: "decimal_value (s @ [c]) = 10 * decimal_value s + digit_value c"
  by (simp add: decimal_value_def)

lemma decimal_value_digits: "decimal_value (digits n) = n"
proof (induction n rule: digits.induct)
  case (1 n)
  show ?case
  proof (cases "n < 10")
    case True
    then show ?thesis
      by (subst digits.simps) (simp add: decimal_value_def digit_value_nth)
  next
    case False
    with 1 have "decimal_value (digits (n div 10)) = n div 10" by simp
    with False show ?thesis
      by (subst digits.simps) (simp add: decimal_value_snoc digit_value_nth)
  qed
qed

lemma str_includes_sublist: "str_includes hay needle = sublist needle hay"
  by (induction hay) (auto simp: sublist_Cons_right)

lemma matches_spec: "matches r q = spec_matches r q"
  by (auto simp: matches_def spec_matches_def ci_substring_def str_includes_sublist toLowerCase_def split: option.splits)

lemma matches_empty: "matches r []"
  by (simp add: matches_def str_includes_sublist toLowerCase_def)

lemma digit_mem: "k < 10 \<Longrightarrow> ''0123456789'' ! k \<in> set ''0123456789''"
  by (rule nth_mem) simp

lemma digits_set: "set (digits n) \<subseteq> set ''0123456789''"
proof (induction n rule: digits.induct)
  case (1 n)
  show ?case
  proof (cases "n < 10")
    case True
    then show ?thesis using digit_mem [of n] by (subst digits.simps) simp
  next
    case False
    have "n mod 10 < 10" by simp
    then have "''0123456789'' ! (n mod 10) \<in> set ''0123456789''" by (rule digit_mem)
    with False 1 show ?thesis by (subst digits.simps) simp
  qed
qed

lemma g_not_digit: "CHR ''g'' \<notin> set ''0123456789''"
  by simp

lemma digits_no_g: "CHR ''g'' \<notin> set (digits n)"
  using digits_set [of n] g_not_digit by blast

lemma toString_no_g: "CHR ''g'' \<notin> set (toString i)"
  by (simp add: toString_def digits_no_g)

lemma toString_no_gemini: "\<not> sublist ''gemini'' (toString i)"
proof
  assume "sublist ''gemini'' (toString i)"
  then have "set ''gemini'' \<subseteq> set (toString i)" by (rule set_mono_sublist)
  moreover have "CHR ''g'' \<in> set ''gemini''" by simp
  ultimately have "CHR ''g'' \<in> set (toString i)" by blast
  then show False using toString_no_g [of i] by blast
qed

lemma url_completions: "ci_substring ''completions'' ''/v1/chat/completions''"
proof -
  have "str_includes (toLowerCase ''/v1/chat/completions'') (toLowerCase ''completions'')"
    by code_simp
  then show ?thesis by (simp only: ci_substring_def str_includes_sublist simp_thms)
qed

lemma url_gemini: "\<not> ci_substring ''gemini'' ''/v1/chat/completions''"
proof -
  have "\<not> str_includes (toLowerCase ''/v1/chat/completions'') (toLowerCase ''gemini'')"
    by code_simp
  then show ?thesis by (simp only: ci_substring_def str_includes_sublist simp_thms)
qed

lemma matches_completions:
  assumes "url r = ''/v1/chat/completions''"
  shows "matches r ''completions''"
proof -
  have "ci_substring ''completions'' (url r)"
    by (simp only: assms url_completions)
  then show ?thesis by (simp only: matches_spec spec_matches_def simp_thms)
qed

lemma matches_gemini:
  assumes "url r = ''/v1/chat/completions''"
  shows "matches r ''gemini'' =
     (ci_substring ''gemini'' (method r) \<or> (\<exists>m. model r = Some m \<and> ci_substring ''gemini'' m))"
proof -
  have "\<not> ci_substring ''gemini'' (url r)"
    by (simp only: assms url_gemini not_False_eq_True)
  then show ?thesis
    using toString_no_gemini [of "status r"] by (simp only: matches_spec spec_matches_def simp_thms)
qed

text \<open>
  Claim C6 (as amended). The filter predicate of the code is the predicate the
  specification words: the query is a case-insensitive substring of \<open>url\<close>, of
  \<open>method\<close> or of a present \<open>model\<close>, or a substring of the decimal form of
  \<open>status\<close>. The empty query matches every record. A record with url
  \<open>/v1/chat/completions\<close> matches \<open>completions\<close>; it matches \<open>gemini\<close> exactly
  when its method or its model contains \<open>gemini\<close>, since the disjunction ranges over
  those fields too.
\<close>

theorem C6_matches:
  "matches r q = spec_matches r q
   \<and> matches r []
   \<and> (url r = ''/v1/chat/completions'' \<longrightarrow>
        matches r ''completions''
        \<and> matches r ''gemini'' =
            (ci_substring ''gemini'' (method r) \<or> (\<exists>m. model r = Some m \<and> ci_substring ''gemini'' m)))"
  by (intro conjI impI matches_spec matches_empty matches_completions matches_gemini)

theorem C6_matches_witness:
  "url (example_log ''/v1/chat/completions'' ''POST'' None 200) = ''/v1/chat/completions''
   \<and> matches (example_log ''/v1/chat/completions'' ''POST'' None 200) ''completions''
   \<and> \<not> matches (example_log ''/v1/chat/completions'' ''POST'' None 200) ''gemini''"
proof -
  let ?e = "example_log ''/v1/chat/completions'' ''POST'' None 200"
  have u: "url ?e = ''/v1/chat/completions''"
    by (simp add: example_log_def)
  have "\<not> str_includes (toLowerCase ''POST'') (toLowerCase ''gemini'')"
    by code_simp
  moreover have "method ?e = ''POST''"
    by (simp add: example_log_def)
  ultimately have m: "\<not> ci_substring ''gemini'' (method ?e)"
    by (simp only: ci_substring_def str_includes_sublist simp_thms)
  have mo: "model ?e = None"
    by (simp add: example_log_def)
  from C6_matches [of ?e "[]"] u
  have "matches ?e ''completions''"
    and "matches ?e ''gemini'' =
           (ci_substring ''gemini'' (method ?e)
            \<or> (\<exists>m. model ?e = Some m \<and> ci_substring ''gemini'' m))"
    by blast+
  with u m mo show ?thesis by simp
qed

text \<open>The claim as stated fails: a request for a Gemini model sent to
  \<open>/v1/chat/completions\<close> matches \<open>gemini\<close> through its \<open>model\<close> field.\<close>

theorem C6_matches_counterexample:
  "url (example_log ''/v1/chat/completions'' ''POST'' (Some ''gemini-2.5-pro'') 200)
     = ''/v1/chat/completions''
   \<and> matches (example_log ''/v1/chat/completions'' ''POST'' (Some ''gemini-2.5-pro'') 200)
       ''gemini''"
proof (rule conjI)
  show "url (example_log ''/v1/chat/completions'' ''POST'' (Some ''gemini-2.5-pro'') 200)
     = ''/v1/chat/completions''"
    by (simp add: example_log_def)
  show "matches (example_log ''/v1/chat/completions'' ''POST'' (Some ''gemini-2.5-pro'') 200)
       ''gemini''"
    by code_simp
qed

section \<open>Properties of the bootstrap\<close>

lemmas prog_defs = try_catch_def await_def invoke_def resolve_def throw_def console_error_def
  setLogs_def setStats_def setIsLoggingEnabled_def ask_dialog_def

lemma loadData_resolves: "fst (loadData be w) = Inr ()"
  by (simp add: loadData_def prog_defs split: sum.splits option.splits prod.splits)

lemma loadData_config_fails:
  "load_config be = Inl e \<Longrightarrow>
   snd (loadData be w) = w\<lparr>issued := issued w @ [Load_config],
                            console := console w @ [(''Failed to load proxy data'', e)]\<rparr>"
  by (simp add: loadData_def prog_defs)

lemma loadData_limit:
  "Get_proxy_logs n \<in> set (sent w (snd (loadData be w))) \<Longrightarrow> n = 100"
  by (auto simp add: loadData_def prog_defs sent_def split: sum.splits option.splits prod.splits)

lemma loadData_reaches_history:
  "load_config be = Inr cfg \<Longrightarrow>
   (\<forall>c p. cfg = Some c \<and> proxy c = Some p \<longrightarrow>
      set_proxy_monitor_enabled be (enable_logging p) = Inr ()) \<Longrightarrow>
   Get_proxy_logs 100 \<in> set (sent w (snd (loadData be w)))"
  by (auto simp add: loadData_def prog_defs sent_def split: sum.splits option.splits prod.splits)

lemma loadData_installs:
  "Get_proxy_logs 100 \<in> set (sent w (snd (loadData be w))) \<Longrightarrow>
   get_proxy_logs be 100 = Inr (Some h) \<Longrightarrow>
   logs (component (snd (loadData be w))) = h"
  by (auto simp add: loadData_def prog_defs sent_def split: sum.splits option.splits prod.splits)

lemma loadData_snapshot:
  "Get_proxy_stats \<in> set (sent w (snd (loadData be w))) \<Longrightarrow>
   get_proxy_stats be = Inr (Some snap) \<Longrightarrow>
   stats (component (snd (loadData be w))) = snap"
  by (auto simp add: loadData_def prog_defs sent_def split: sum.splits option.splits prod.splits)

lemma loadData_history_fails:
  "Get_proxy_logs 100 \<in> set (sent w (snd (loadData be w))) \<Longrightarrow>
   get_proxy_logs be 100 = Inl e \<Longrightarrow>
   logs (component (snd (loadData be w))) = logs (component w)
   \<and> stats (component (snd (loadData be w))) = stats (component w)
   \<and> Get_proxy_stats \<notin> set (sent w (snd (loadData be w)))
   \<and> console (snd (loadData be w)) = console w @ [(''Failed to load proxy data'', e)]"
  by (auto simp add: loadData_def prog_defs sent_def split: sum.splits option.splits prod.splits)

lemma loadData_stats_fails:
  "Get_proxy_stats \<in> set (sent w (snd (loadData be w))) \<Longrightarrow>
   get_proxy_stats be = Inl e \<Longrightarrow>
   stats (component (snd (loadData be w))) = stats (component w)
   \<and> console (snd (loadData be w)) = console w @ [(''Failed to load proxy data'', e)]"
  by (auto simp add: loadData_def prog_defs sent_def split: sum.splits option.splits prod.splits)

text \<open>The runs of the bootstrap on the concrete backends.\<close>

lemma loadData_healthy:
  "loadData (healthy_backend h snap) w =
     (Inr (), w\<lparr>issued := issued w @ [Load_config, Set_proxy_monitor_enabled True,
                                        Get_proxy_logs 100, Get_proxy_stats],
               component := (component w)\<lparr>isLoggingEnabled := True, logs := take 100 h,
                                          stats := snap\<rparr>\<rparr>)"
  by (simp add: loadData_def prog_defs healthy_backend_def example_config_def)

lemma loadData_config_down:
  "loadData config_down_backend w =
     (Inr (), w\<lparr>issued := issued w @ [Load_config],
               console := console w @ [(''Failed to load proxy data'', unavailable)]\<rparr>)"
  by (simp add: loadData_def prog_defs config_down_backend_def healthy_backend_def)

lemma loadData_history_down:
  "loadData history_down_backend w =
     (Inr (), w\<lparr>issued := issued w @ [Load_config, Set_proxy_monitor_enabled True,
                                        Get_proxy_logs 100],
               component := (component w)\<lparr>isLoggingEnabled := True\<rparr>,
               console := console w @ [(''Failed to load proxy data'', unavailable)]\<rparr>)"
  by (simp add: loadData_def prog_defs history_down_backend_def healthy_backend_def
      example_config_def)

lemma loadData_stats_down:
  "loadData stats_down_backend w =
     (Inr (), w\<lparr>issued := issued w @ [Load_config, Set_proxy_monitor_enabled True,
                                        Get_proxy_logs 100, Get_proxy_stats],
               component := (component w)\<lparr>isLoggingEnabled := True,
                                          logs := take 100 (numbered_logs 3)\<rparr>,
               console := console w @ [(''Failed to load proxy data'', unavailable)]\<rparr>)"
  by (simp add: loadData_def prog_defs stats_down_backend_def healthy_backend_def
      example_config_def)

lemma loadData_oversize:
  "loadData oversize_backend w =
     (Inr (), w\<lparr>issued := issued w @ [Load_config, Set_proxy_monitor_enabled True,
                                        Get_proxy_logs 100, Get_proxy_stats],
               component := (component w)\<lparr>isLoggingEnabled := True,
                                          logs := numbered_logs 1001,
                                          stats := example_stats\<rparr>\<rparr>)"
  by (simp add: loadData_def prog_defs oversize_backend_def healthy_backend_def
      example_config_def)

lemma sent_append: "sent w (w'\<lparr>issued := issued w @ cs\<rparr>) = cs"
  by (simp add: sent_def)


text \<open>The end-to-end run of the specification: a bootstrap that fetches three records
  and the stats 3/2/1, then one live event with status 500.\<close>

lemma end_to_end:
  "stats (on_proxy_request (example_log u m mo 500)
      (component (snd (loadData (healthy_backend (numbered_logs 3) example_stats) initial_world))))
     = \<lparr>total_requests = 4, success_count = 2, error_count = 2\<rparr>
   \<and> logs (on_proxy_request (example_log u m mo 500)
      (component (snd (loadData (healthy_backend (numbered_logs 3) example_stats) initial_world))))
     = example_log u m mo 500 # numbered_logs 3"
proof -
  have "counters_within 3 example_stats"
    by (simp add: counters_within_def example_stats_def)
  then have "applyInsert (example_log u m mo 500) example_stats =
     \<lparr>total_requests = total_requests example_stats + 1,
      success_count = success_count example_stats
        + (if 200 \<le> status (example_log u m mo 500) \<and> status (example_log u m mo 500) < 400
           then 1 else 0),
      error_count = error_count example_stats
        + (if 200 \<le> status (example_log u m mo 500) \<and> status (example_log u m mo 500) < 400
           then 0 else 1)\<rparr>"
    by (rule applyInsert_exact) simp
  then have "applyInsert (example_log u m mo 500) example_stats
      = \<lparr>total_requests = 4, success_count = 2, error_count = 2\<rparr>"
    by (simp add: example_stats_def example_log_def)
  then show ?thesis
    by (simp add: loadData_healthy on_proxy_request_def insert_log_def numbered_logs_length)
qed

text \<open>
  Claim C1 (as amended). A failing step of the bootstrap is caught and logged, and
  \<open>loadData\<close> completes without raising; the failed step leaves the values in memory
  as they were. The steps stand in one \<open>try\<close> block, so the steps after the failed one
  are skipped: when the config fetch fails, nothing else is sent and the state of the
  component is unchanged; when the history fetch fails, logs and stats are unchanged and
  the stats fetch is not sent; when the stats fetch fails, the stats are unchanged.
\<close>

theorem C1_bootstrap_failure:
  "(let w' = snd (loadData be w) in
      fst (loadData be w) = Inr ()
      \<and> (load_config be = Inl e \<longrightarrow>
            component w' = component w
            \<and> sent w w' = [Load_config]
            \<and> console w' = console w @ [(''Failed to load proxy data'', e)])
      \<and> (Get_proxy_logs 100 \<in> set (sent w w') \<and> get_proxy_logs be 100 = Inl e \<longrightarrow>
            logs (component w') = logs (component w)
            \<and> stats (component w') = stats (component w)
            \<and> Get_proxy_stats \<notin> set (sent w w')
            \<and> console w' = console w @ [(''Failed to load proxy data'', e)])
      \<and> (Get_proxy_stats \<in> set (sent w w') \<and> get_proxy_stats be = Inl e \<longrightarrow>
            stats (component w') = stats (component w)
            \<and> console w' = console w @ [(''Failed to load proxy data'', e)]))"
  unfolding Let_def
proof (intro conjI impI)
  show "fst (loadData be w) = Inr ()"
    by (rule loadData_resolves)
next
  assume "load_config be = Inl e"
  then have *: "snd (loadData be w) = w\<lparr>issued := issued w @ [Load_config],
      console := console w @ [(''Failed to load proxy data'', e)]\<rparr>"
    by (rule loadData_config_fails)
  show "component (snd (loadData be w)) = component w"
    by (simp add: *)
  show "sent w (snd (loadData be w)) = [Load_config]"
    by (simp add: * sent_def)
  show "console (snd (loadData be w)) = console w @ [(''Failed to load proxy data'', e)]"
    by (simp add: *)
next
  assume "Get_proxy_logs 100 \<in> set (sent w (snd (loadData be w))) \<and> get_proxy_logs be 100 = Inl e"
  then have *: "logs (component (snd (loadData be w))) = logs (component w)
   \<and> stats (component (snd (loadData be w))) = stats (component w)
   \<and> Get_proxy_stats \<notin> set (sent w (snd (loadData be w)))
   \<and> console (snd (loadData be w)) = console w @ [(''Failed to load proxy data'', e)]"
    using loadData_history_fails [where be = be and w = w and e = e] by blast
  from * show "logs (component (snd (loadData be w))) = logs (component w)" by blast
  from * show "stats (component (snd (loadData be w))) = stats (component w)" by blast
  from * show "Get_proxy_stats \<notin> set (sent w (snd (loadData be w)))" by blast
  from * show "console (snd (loadData be w)) = console w @ [(''Failed to load proxy data'', e)]"
    by blast
next
  assume "Get_proxy_stats \<in> set (sent w (snd (loadData be w))) \<and> get_proxy_stats be = Inl e"
  then have *: "stats (component (snd (loadData be w))) = stats (component w)
   \<and> console (snd (loadData be w)) = console w @ [(''Failed to load proxy data'', e)]"
    using loadData_stats_fails [where be = be and w = w and e = e] by blast
  from * show "stats (component (snd (loadData be w))) = stats (component w)" by blast
  from * show "console (snd (loadData be w)) = console w @ [(''Failed to load proxy data'', e)]"
    by blast
qed

theorem C1_bootstrap_failure_witness:
  "load_config config_down_backend = Inl unavailable
   \<and> component (snd (loadData config_down_backend initial_world)) = initial_state
   \<and> sent initial_world (snd (loadData config_down_backend initial_world)) = [Load_config]
   \<and> Get_proxy_logs 100 \<in> set (sent initial_world (snd (loadData history_down_backend initial_world)))
   \<and> get_proxy_logs history_down_backend 100 = Inl unavailable
   \<and> logs (component (snd (loadData history_down_backend initial_world))) = []
   \<and> Get_proxy_stats \<notin> set (sent initial_world (snd (loadData history_down_backend initial_world)))
   \<and> Get_proxy_stats \<in> set (sent initial_world (snd (loadData stats_down_backend initial_world)))
   \<and> get_proxy_stats stats_down_backend = Inl unavailable
   \<and> stats (component (snd (loadData stats_down_backend initial_world))) = zero_stats"
proof -
  have c: "load_config config_down_backend = Inl unavailable"
    by (simp add: config_down_backend_def)
  have "Get_proxy_logs 100
      \<in> set (sent initial_world (snd (loadData history_down_backend initial_world)))"
    by (simp add: loadData_history_down sent_def)
  moreover have "get_proxy_logs history_down_backend 100 = Inl unavailable"
    by (simp add: history_down_backend_def)
  ultimately have h: "Get_proxy_logs 100
      \<in> set (sent initial_world (snd (loadData history_down_backend initial_world)))
    \<and> get_proxy_logs history_down_backend 100 = Inl unavailable"
    by (rule conjI)
  have "Get_proxy_stats
      \<in> set (sent initial_world (snd (loadData stats_down_backend initial_world)))"
    by (simp add: loadData_stats_down sent_def)
  moreover have "get_proxy_stats stats_down_backend = Inl unavailable"
    by (simp add: stats_down_backend_def)
  ultimately have s: "Get_proxy_stats
      \<in> set (sent initial_world (snd (loadData stats_down_backend initial_world)))
    \<and> get_proxy_stats stats_down_backend = Inl unavailable"
    by (rule conjI)
  have i: "component (initial_world :: (unit, unit) world) = initial_state"
    "logs initial_state = []"
    "stats initial_state = zero_stats"
    by (simp_all add: initial_world_def initial_state_def)
  from C1_bootstrap_failure [where be = config_down_backend and w = initial_world and e = unavailable] c
  have 1: "component (snd (loadData config_down_backend initial_world)) = component (initial_world :: (unit, unit) world)
     \<and> sent initial_world (snd (loadData config_down_backend initial_world)) = [Load_config]"
    unfolding Let_def by simp
  from C1_bootstrap_failure [where be = history_down_backend and w = initial_world and e = unavailable] h
  have 2: "logs (component (snd (loadData history_down_backend initial_world)))
       = logs (component (initial_world :: (unit, unit) world))
     \<and> Get_proxy_stats
       \<notin> set (sent initial_world (snd (loadData history_down_backend initial_world)))"
    unfolding Let_def by simp
  from C1_bootstrap_failure [where be = stats_down_backend and w = initial_world and e = unavailable] s
  have 3: "stats (component (snd (loadData stats_down_backend initial_world)))
       = stats (component (initial_world :: (unit, unit) world))"
    unfolding Let_def by simp
  from c h s 1 2 3 show ?thesis by (simp add: i)
qed

text \<open>The claim as stated fails: when the config fetch is rejected, the history and the
  stats fetch are not attempted, although the backend would have answered both.\<close>

theorem C1_bootstrap_failure_counterexample:
  "get_proxy_logs config_down_backend 100 = Inr (Some (numbered_logs 3))
   \<and> get_proxy_stats config_down_backend = Inr (Some example_stats)
   \<and> issued (snd (loadData config_down_backend initial_world)) = [Load_config]
   \<and> logs (component (snd (loadData config_down_backend initial_world))) = []
   \<and> stats (component (snd (loadData config_down_backend initial_world))) = zero_stats"
proof (intro conjI)
  show "get_proxy_logs config_down_backend 100 = Inr (Some (numbered_logs 3))"
    by (simp add: config_down_backend_def healthy_backend_def numbered_logs_length)
  show "get_proxy_stats config_down_backend = Inr (Some example_stats)"
    by (simp add: config_down_backend_def healthy_backend_def)
  show "issued (snd (loadData config_down_backend initial_world)) = [Load_config]"
    by (simp add: loadData_config_down initial_world_def)
  show "logs (component (snd (loadData config_down_backend initial_world))) = []"
    by (simp add: loadData_config_down initial_world_def initial_state_def)
  show "stats (component (snd (loadData config_down_backend initial_world))) = zero_stats"
    by (simp add: loadData_config_down initial_world_def initial_state_def)
qed

text \<open>
  Claim C2 (as amended). The bootstrap asks the history fetch for at most 100 records:
  the only limit it ever passes is 100, not the capacity 1000 of the store. The fetch is
  sent whenever the configuration step before it resolves, and an array it resolves with
  becomes the contents of the store as it is.
\<close>

theorem C2_history_fetch:
  "(let w' = snd (loadData be w) in
      (Get_proxy_logs n \<in> set (sent w w') \<longrightarrow> n = 100)
      \<and> (load_config be = Inr cfg
          \<and> (\<forall>c p. cfg = Some c \<and> proxy c = Some p \<longrightarrow>
                set_proxy_monitor_enabled be (enable_logging p) = Inr ())
          \<longrightarrow> Get_proxy_logs 100 \<in> set (sent w w'))
      \<and> (Get_proxy_logs 100 \<in> set (sent w w') \<and> get_proxy_logs be 100 = Inr (Some h) \<longrightarrow>
            logs (component w') = h))"
  unfolding Let_def
proof (intro conjI impI)
  assume "Get_proxy_logs n \<in> set (sent w (snd (loadData be w)))"
  then show "n = 100" by (rule loadData_limit)
next
  assume "load_config be = Inr cfg
          \<and> (\<forall>c p. cfg = Some c \<and> proxy c = Some p \<longrightarrow>
                set_proxy_monitor_enabled be (enable_logging p) = Inr ())"
  then show "Get_proxy_logs 100 \<in> set (sent w (snd (loadData be w)))"
    using loadData_reaches_history [where be = be and w = w and cfg = cfg] by blast
next
  assume "Get_proxy_logs 100 \<in> set (sent w (snd (loadData be w)))
          \<and> get_proxy_logs be 100 = Inr (Some h)"
  then show "logs (component (snd (loadData be w))) = h"
    using loadData_installs [where be = be and w = w and h = h] by blast
qed

theorem C2_history_fetch_witness:
  "load_config (healthy_backend (numbered_logs 150) example_stats) = Inr (Some (example_config True))
   \<and> set_proxy_monitor_enabled (healthy_backend (numbered_logs 150) example_stats) True = Inr ()
   \<and> Get_proxy_logs 100
       \<in> set (sent initial_world
                (snd (loadData (healthy_backend (numbered_logs 150) example_stats) initial_world)))
   \<and> get_proxy_logs (healthy_backend (numbered_logs 150) example_stats) 100
       = Inr (Some (take 100 (numbered_logs 150)))
   \<and> logs (component (snd (loadData (healthy_backend (numbered_logs 150) example_stats)
                               initial_world)))
       = take 100 (numbered_logs 150)"
proof -
  let ?be = "healthy_backend (numbered_logs 150) example_stats"
  have c: "load_config ?be = Inr (Some (example_config True))"
    by (simp add: healthy_backend_def)
  have p: "\<forall>c p. Some (example_config True) = Some c \<and> proxy c = Some p \<longrightarrow>
                set_proxy_monitor_enabled ?be (enable_logging p) = Inr ()"
    by (simp add: healthy_backend_def)
  have g: "get_proxy_logs ?be 100 = Inr (Some (take 100 (numbered_logs 150)))"
    by (simp add: healthy_backend_def)
  have s: "set_proxy_monitor_enabled ?be True = Inr ()"
    by (simp add: healthy_backend_def)
  note t = C2_history_fetch [where n = 100 and be = ?be and w = initial_world
      and cfg = "Some (example_config True)" and h = "take 100 (numbered_logs 150)",
      unfolded Let_def]
  from t c p
  have 1: "Get_proxy_logs 100 \<in> set (sent initial_world (snd (loadData ?be initial_world)))"
    by simp
  from t 1 g
  have 2: "logs (component (snd (loadData ?be initial_world))) = take 100 (numbered_logs 150)"
    by simp
  from c s 1 g 2 show ?thesis by simp
qed

text \<open>The claim as stated fails: on a backend that holds 150 records and honours the
  limit, the bootstrap sends the limit 100, never 1000, and installs 100 records.\<close>

theorem C2_history_fetch_counterexample:
  "issued (snd (loadData (healthy_backend (numbered_logs 150) example_stats) initial_world))
     = [Load_config, Set_proxy_monitor_enabled True, Get_proxy_logs 100, Get_proxy_stats]
   \<and> length (logs (component
        (snd (loadData (healthy_backend (numbered_logs 150) example_stats) initial_world))))
     = 100"
  by (simp add: loadData_healthy initial_world_def numbered_logs_length)

section \<open>The installed snapshot under live events\<close>

lemma applyInsert_saturated:
  "applyInsert (example_log u m mo 200) saturated_stats
     = \<lparr>total_requests = 2 ^ 53, success_count = 2 ^ 53, error_count = 0\<rparr>"
proof -
  have t: "total_requests saturated_stats = 2 ^ 53"
    and s: "success_count saturated_stats = 2 ^ 53 - 1"
    and e: "error_count saturated_stats = 0"
    by (simp_all add: saturated_stats_def)
  have ok: "200 \<le> status (example_log u m mo 200) \<and> status (example_log u m mo 200) < 400"
    by (simp add: example_log_def)
  have 1: "js_add (2 ^ 53 - 1) 1 = 2 ^ 53"
    using js_add_exact [of "2 ^ 53 - 1" 1] by simp
  have 2: "js_add 0 0 = 0"
    using js_add_exact [of 0 0] by simp
  show ?thesis
    by (simp only: applyInsert_cases ok simp_thms if_True t s e js_add_saturated 1 2)
qed

text \<open>
  Claim C9 (as amended). The bootstrap installs the fetched stats as they are. While the
  counters are below \<open>2 ^ 53\<close> in magnitude, a live event leaves
  \<open>total - (success + error)\<close> as it is; so a snapshot whose counters do not add up
  stays off by the same amount after every sequence of live events that keeps the counters
  in this range (the magnitude of each counter plus the number of events is at most
  \<open>2 ^ 53\<close>).
\<close>

theorem C9_snapshot_defect_persists:
  "(counters_within (2 ^ 53 - 1) st \<longrightarrow> stats_defect (applyInsert r st) = stats_defect st)
   \<and> (let w' = snd (loadData be w) in
        Get_proxy_stats \<in> set (sent w w') \<and> get_proxy_stats be = Inr (Some snap) \<longrightarrow>
          stats (component w') = snap
          \<and> (counters_within (2 ^ 53 - int (length events)) snap \<longrightarrow>
               (let st' = stats (deliver (component w') events) in
                  stats_defect st' = stats_defect snap
                  \<and> (total_requests snap \<noteq> success_count snap + error_count snap \<longrightarrow>
                       total_requests st' \<noteq> success_count st' + error_count st'))))"
  unfolding Let_def
proof (intro conjI impI)
  assume "counters_within (2 ^ 53 - 1) st"
  then show "stats_defect (applyInsert r st) = stats_defect st"
    by (rule applyInsert_defect) simp
next
  assume "Get_proxy_stats \<in> set (sent w (snd (loadData be w)))
          \<and> get_proxy_stats be = Inr (Some snap)"
  then show "stats (component (snd (loadData be w))) = snap"
    using loadData_snapshot [where be = be and w = w and snap = snap] by blast
next
  assume "Get_proxy_stats \<in> set (sent w (snd (loadData be w)))
          \<and> get_proxy_stats be = Inr (Some snap)"
  then have s: "stats (component (snd (loadData be w))) = snap"
    using loadData_snapshot [where be = be and w = w and snap = snap] by blast
  assume "counters_within (2 ^ 53 - int (length events)) snap"
  then have "counters_within (2 ^ 53 - int (length events))
      (stats (component (snd (loadData be w))))"
    by (simp add: s)
  moreover have "2 ^ 53 - int (length events) + int (length events) \<le> (2 ^ 53 :: int)"
    by simp
  ultimately
  have "stats_defect (stats (deliver (component (snd (loadData be w))) events))
      = stats_defect (stats (component (snd (loadData be w))))"
    using deliver_exact [where s = "component (snd (loadData be w))" and es = events
        and b = "2 ^ 53 - int (length events)"]
    by blast
  then show d: "stats_defect (stats (deliver (component (snd (loadData be w))) events))
           = stats_defect snap"
    by (simp add: s)
  assume "total_requests snap \<noteq> success_count snap + error_count snap"
  then have "stats_defect snap \<noteq> 0"
    by (simp add: stats_defect_def)
  with d have "stats_defect (stats (deliver (component (snd (loadData be w))) events)) \<noteq> 0"
    by simp
  then show "total_requests (stats (deliver (component (snd (loadData be w))) events))
      \<noteq> success_count (stats (deliver (component (snd (loadData be w))) events))
        + error_count (stats (deliver (component (snd (loadData be w))) events))"
    by (simp add: stats_defect_def)
qed

theorem C9_snapshot_defect_persists_witness:
  "counters_within (2 ^ 53 - 1) skewed_stats
   \<and> stats_defect (applyInsert (example_log [] [] None 200) skewed_stats)
       = stats_defect skewed_stats
   \<and> Get_proxy_stats
     \<in> set (sent initial_world (snd (loadData (healthy_backend [] skewed_stats) initial_world)))
   \<and> get_proxy_stats (healthy_backend [] skewed_stats) = Inr (Some skewed_stats)
   \<and> counters_within (2 ^ 53 - int (length (numbered_logs 3))) skewed_stats
   \<and> total_requests skewed_stats \<noteq> success_count skewed_stats + error_count skewed_stats
   \<and> stats (component (snd (loadData (healthy_backend [] skewed_stats) initial_world)))
       = skewed_stats
   \<and> total_requests (stats (deliver
        (component (snd (loadData (healthy_backend [] skewed_stats) initial_world)))
        (numbered_logs 3)))
      \<noteq> success_count (stats (deliver
        (component (snd (loadData (healthy_backend [] skewed_stats) initial_world)))
        (numbered_logs 3)))
       + error_count (stats (deliver
        (component (snd (loadData (healthy_backend [] skewed_stats) initial_world)))
        (numbered_logs 3)))"
proof -
  let ?be = "healthy_backend [] skewed_stats"
  have a: "Get_proxy_stats \<in> set (sent initial_world (snd (loadData ?be initial_world)))"
    by (simp add: loadData_healthy sent_def)
  have b: "get_proxy_stats ?be = Inr (Some skewed_stats)"
    by (simp add: healthy_backend_def)
  have c: "total_requests skewed_stats \<noteq> success_count skewed_stats + error_count skewed_stats"
    by (simp add: skewed_stats_def)
  have d: "counters_within (2 ^ 53 - 1) skewed_stats"
    by (simp add: counters_within_def skewed_stats_def)
  have e: "counters_within (2 ^ 53 - int (length (numbered_logs 3))) skewed_stats"
    by (simp add: counters_within_def skewed_stats_def numbered_logs_length)
  from C9_snapshot_defect_persists [where be = ?be and w = initial_world
      and snap = skewed_stats and events = "numbered_logs 3" and st = skewed_stats
      and r = "example_log [] [] None 200", unfolded Let_def] a b c d e
  show ?thesis by simp
qed

text \<open>The claim as stated fails: at \<open>2 ^ 53\<close> the addition of the source rounds. The
  snapshot \<open>2 ^ 53\<close>, \<open>2 ^ 53 - 1\<close>, 0 is off by one; after one live event with status
  200 the total is still \<open>2 ^ 53\<close> and the success counter has reached it, so the
  counters add up.\<close>

theorem C9_snapshot_defect_persists_counterexample:
  "stats_defect saturated_stats = 1
   \<and> stats_defect (applyInsert (example_log [] [] None 200) saturated_stats) = 0
   \<and> stats (component (snd (loadData (healthy_backend [] saturated_stats) initial_world)))
       = saturated_stats
   \<and> stats (on_proxy_request (example_log [] [] None 200)
        (component (snd (loadData (healthy_backend [] saturated_stats) initial_world))))
       = \<lparr>total_requests = 2 ^ 53, success_count = 2 ^ 53, error_count = 0\<rparr>"
proof (intro conjI)
  show "stats_defect saturated_stats = 1"
    by (simp add: stats_defect_def saturated_stats_def)
  show "stats_defect (applyInsert (example_log [] [] None 200) saturated_stats) = 0"
    by (simp add: applyInsert_saturated stats_defect_def)
  show s: "stats (component (snd (loadData (healthy_backend [] saturated_stats) initial_world)))
       = saturated_stats"
    by (simp add: loadData_healthy)
  show "stats (on_proxy_request (example_log [] [] None 200)
        (component (snd (loadData (healthy_backend [] saturated_stats) initial_world))))
       = \<lparr>total_requests = 2 ^ 53, success_count = 2 ^ 53, error_count = 0\<rparr>"
    by (simp only: stats_on_proxy_request s applyInsert_saturated)
qed

text \<open>
  Claim C10. The bootstrap installs the array of the history fetch as it is, whatever its
  length; the first live event afterwards cuts the store to 1000 records: the store then
  holds \<open>min (n + 1) 1000\<close> records, where \<open>n\<close> is its length before the event.
\<close>

theorem C10_bulk_install_unbounded:
  "(let w' = snd (loadData be w) in
      Get_proxy_logs 100 \<in> set (sent w w') \<and> get_proxy_logs be 100 = Inr (Some h) \<longrightarrow>
        logs (component w') = h
        \<and> length (logs (on_proxy_request r (component w'))) = min (length h + 1) 1000)
   \<and> length (logs (on_proxy_request r s)) = min (length (logs s) + 1) 1000"
  unfolding Let_def
proof (intro conjI impI)
  show l: "length (logs (on_proxy_request r s)) = min (length (logs s) + 1) 1000" for s
    by (simp add: logs_on_proxy_request insert_log_length)
  assume "Get_proxy_logs 100 \<in> set (sent w (snd (loadData be w)))
          \<and> get_proxy_logs be 100 = Inr (Some h)"
  then show i: "logs (component (snd (loadData be w))) = h"
    using loadData_installs [where be = be and w = w and h = h] by blast
  show "length (logs (on_proxy_request r (component (snd (loadData be w)))))
        = min (length h + 1) 1000"
    by (simp add: l i)
qed

theorem C10_bulk_install_unbounded_witness:
  "Get_proxy_logs 100 \<in> set (sent initial_world (snd (loadData oversize_backend initial_world)))
   \<and> get_proxy_logs oversize_backend 100 = Inr (Some (numbered_logs 1001))
   \<and> length (logs (component (snd (loadData oversize_backend initial_world)))) = 1001
   \<and> length (logs (on_proxy_request (example_log [] [] None 200)
        (component (snd (loadData oversize_backend initial_world))))) = 1000"
proof -
  have a: "Get_proxy_logs 100
      \<in> set (sent initial_world (snd (loadData oversize_backend initial_world)))"
    by (simp add: loadData_oversize sent_def)
  have b: "get_proxy_logs oversize_backend 100 = Inr (Some (numbered_logs 1001))"
    by (simp add: oversize_backend_def)
  from C10_bulk_install_unbounded [where be = oversize_backend and w = initial_world
      and h = "numbered_logs 1001" and r = "example_log [] [] None 200",
      unfolded Let_def] a b
  show ?thesis by (simp add: numbered_logs_length)
qed

section \<open>Properties of the toggle\<close>

lemma toggleLogging_resolves: "fst (toggleLogging be w) = Inr ()"
  by (auto simp add: toggleLogging_def assign_enable_logging_def prog_defs Let_def
      split: sum.splits option.splits prod.splits)

lemma toggleLogging_load_fails:
  "load_config be = Inl e \<Longrightarrow>
   snd (toggleLogging be w) =
     w\<lparr>issued := issued w @ [Load_config],
       console := console w @ [(''Failed to toggle logging'', e)]\<rparr>"
  by (simp add: toggleLogging_def prog_defs Let_def)

lemma toggleLogging_save_fails:
  "Save_config cfg' \<in> set (sent w (snd (toggleLogging be w))) \<Longrightarrow>
   save_config be cfg' = Inl e \<Longrightarrow>
   component (snd (toggleLogging be w)) = component w
   \<and> sent w (snd (toggleLogging be w)) = [Load_config, Save_config cfg']"
  by (auto simp add: toggleLogging_def assign_enable_logging_def prog_defs Let_def sent_def
      split: sum.splits option.splits prod.splits)

lemma toggleLogging_changed:
  "isLoggingEnabled (component (snd (toggleLogging be w))) \<noteq> isLoggingEnabled (component w) \<Longrightarrow>
   (\<exists>c p. load_config be = Inr (Some c) \<and> proxy c = Some p
      \<and> save_config be
           (c\<lparr>proxy := Some (p\<lparr>enable_logging := \<not> isLoggingEnabled (component w)\<rparr>)\<rparr>)
         = Inr ()
      \<and> set_proxy_monitor_enabled be (\<not> isLoggingEnabled (component w)) = Inr ()
      \<and> sent w (snd (toggleLogging be w)) =
          [Load_config,
           Save_config
             (c\<lparr>proxy := Some (p\<lparr>enable_logging := \<not> isLoggingEnabled (component w)\<rparr>)\<rparr>),
           Set_proxy_monitor_enabled (\<not> isLoggingEnabled (component w))])"
  by (auto simp add: toggleLogging_def assign_enable_logging_def prog_defs Let_def sent_def
      split: sum.splits option.splits prod.splits)

lemma toggleLogging_sync_sent:
  "Set_proxy_monitor_enabled b \<in> set (sent w (snd (toggleLogging be w))) \<Longrightarrow>
   (\<exists>c p. load_config be = Inr (Some c) \<and> proxy c = Some p
      \<and> save_config be
           (c\<lparr>proxy := Some (p\<lparr>enable_logging := \<not> isLoggingEnabled (component w)\<rparr>)\<rparr>)
         = Inr ())
   \<and> b = (\<not> isLoggingEnabled (component w))"
  by (auto simp add: toggleLogging_def assign_enable_logging_def prog_defs Let_def sent_def
      split: sum.splits option.splits prod.splits)

lemma toggleLogging_store:
  "logs (component (snd (toggleLogging be w))) = logs (component w)
   \<and> stats (component (snd (toggleLogging be w))) = stats (component w)"
  by (auto simp add: toggleLogging_def assign_enable_logging_def prog_defs Let_def
      split: sum.splits option.splits prod.splits)

text \<open>The runs of the toggle on the concrete backends, from a world where recording is
  on.\<close>

lemma isLoggingEnabled_busy: "isLoggingEnabled (component busy_world)"
proof -
  have "isLoggingEnabled (deliver s es) = isLoggingEnabled s" for s es
    by (induction es arbitrary: s) (simp_all add: deliver_Nil deliver_Cons on_proxy_request_def)
  then show ?thesis by (simp add: busy_world_def initial_state_def)
qed

lemma toggleLogging_healthy:
  "isLoggingEnabled (component w) \<Longrightarrow>
   toggleLogging (healthy_backend h snap) w =
     (Inr (), w\<lparr>issued := issued w @ [Load_config, Save_config (example_config False),
                                        Set_proxy_monitor_enabled False],
               component := (component w)\<lparr>isLoggingEnabled := False\<rparr>\<rparr>)"
  by (simp add: toggleLogging_def assign_enable_logging_def prog_defs Let_def
      healthy_backend_def example_config_def)

lemma toggleLogging_save_down:
  "isLoggingEnabled (component w) \<Longrightarrow>
   toggleLogging save_down_backend w =
     (Inr (), w\<lparr>issued := issued w @ [Load_config, Save_config (example_config False)],
               console := console w @ [(''Failed to toggle logging'', unavailable)]\<rparr>)"
  by (simp add: toggleLogging_def assign_enable_logging_def prog_defs Let_def
      save_down_backend_def healthy_backend_def example_config_def)

text \<open>
  Claim C7. In a toggle, a failed configuration read or a failed configuration write
  leaves the state of the component unchanged and the backend-sync command unsent. The
  sync command is sent only after the read and the write have succeeded, and the local
  flag changes only after read, write of the configuration with the flag flipped, and
  sync have all succeeded, in this order.
\<close>

theorem C7_toggle_ordering:
  "(let w' = snd (toggleLogging be w); newState = (\<not> isLoggingEnabled (component w)) in
      (load_config be = Inl e \<longrightarrow>
         component w' = component w \<and> sent w w' = [Load_config])
      \<and> (Save_config cfg' \<in> set (sent w w') \<and> save_config be cfg' = Inl e \<longrightarrow>
           component w' = component w \<and> sent w w' = [Load_config, Save_config cfg'])
      \<and> (Set_proxy_monitor_enabled b \<in> set (sent w w') \<longrightarrow>
           (\<exists>c p. load_config be = Inr (Some c) \<and> proxy c = Some p
              \<and> save_config be (c\<lparr>proxy := Some (p\<lparr>enable_logging := newState\<rparr>)\<rparr>) = Inr ())
           \<and> b = newState)
      \<and> (isLoggingEnabled (component w') \<noteq> isLoggingEnabled (component w) \<longrightarrow>
           (\<exists>c p. load_config be = Inr (Some c) \<and> proxy c = Some p
              \<and> save_config be (c\<lparr>proxy := Some (p\<lparr>enable_logging := newState\<rparr>)\<rparr>) = Inr ()
              \<and> set_proxy_monitor_enabled be newState = Inr ()
              \<and> sent w w' =
                  [Load_config,
                   Save_config (c\<lparr>proxy := Some (p\<lparr>enable_logging := newState\<rparr>)\<rparr>),
                   Set_proxy_monitor_enabled newState])))"
  unfolding Let_def
proof (intro conjI impI)
  assume "load_config be = Inl e"
  then have *: "snd (toggleLogging be w) =
     w\<lparr>issued := issued w @ [Load_config],
       console := console w @ [(''Failed to toggle logging'', e)]\<rparr>"
    by (rule toggleLogging_load_fails)
  show "component (snd (toggleLogging be w)) = component w"
    by (simp add: *)
  show "sent w (snd (toggleLogging be w)) = [Load_config]"
    by (simp add: * sent_def)
next
  assume "Save_config cfg' \<in> set (sent w (snd (toggleLogging be w)))
          \<and> save_config be cfg' = Inl e"
  then have *: "component (snd (toggleLogging be w)) = component w
     \<and> sent w (snd (toggleLogging be w)) = [Load_config, Save_config cfg']"
    using toggleLogging_save_fails [where be = be and w = w and cfg' = cfg' and e = e]
    by blast
  from * show "component (snd (toggleLogging be w)) = component w" by blast
  from * show "sent w (snd (toggleLogging be w)) = [Load_config, Save_config cfg']" by blast
next
  assume a: "Set_proxy_monitor_enabled b \<in> set (sent w (snd (toggleLogging be w)))"
  from toggleLogging_sync_sent [OF a]
  show "\<exists>c p. load_config be = Inr (Some c) \<and> proxy c = Some p
      \<and> save_config be
           (c\<lparr>proxy := Some (p\<lparr>enable_logging := \<not> isLoggingEnabled (component w)\<rparr>)\<rparr>)
         = Inr ()"
    by (rule conjunct1)
  from toggleLogging_sync_sent [OF a]
  show "b = (\<not> isLoggingEnabled (component w))"
    by (rule conjunct2)
next
  assume "isLoggingEnabled (component (snd (toggleLogging be w)))
          \<noteq> isLoggingEnabled (component w)"
  then show "\<exists>c p. load_config be = Inr (Some c) \<and> proxy c = Some p
      \<and> save_config be
           (c\<lparr>proxy := Some (p\<lparr>enable_logging := \<not> isLoggingEnabled (component w)\<rparr>)\<rparr>)
         = Inr ()
      \<and> set_proxy_monitor_enabled be (\<not> isLoggingEnabled (component w)) = Inr ()
      \<and> sent w (snd (toggleLogging be w)) =
          [Load_config,
           Save_config
             (c\<lparr>proxy := Some (p\<lparr>enable_logging := \<not> isLoggingEnabled (component w)\<rparr>)\<rparr>),
           Set_proxy_monitor_enabled (\<not> isLoggingEnabled (component w))]"
    by (rule toggleLogging_changed)
qed

theorem C7_toggle_ordering_witness:
  "load_config config_down_backend = Inl unavailable
   \<and> component (snd (toggleLogging config_down_backend busy_world)) = component busy_world
   \<and> sent busy_world (snd (toggleLogging config_down_backend busy_world)) = [Load_config]
   \<and> Save_config (example_config False)
       \<in> set (sent busy_world (snd (toggleLogging save_down_backend busy_world)))
   \<and> save_config save_down_backend (example_config False) = Inl unavailable
   \<and> component (snd (toggleLogging save_down_backend busy_world)) = component busy_world
   \<and> sent busy_world (snd (toggleLogging save_down_backend busy_world))
       = [Load_config, Save_config (example_config False)]
   \<and> Set_proxy_monitor_enabled False
       \<in> set (sent busy_world (snd (toggleLogging (healthy_backend [] example_stats) busy_world)))
   \<and> isLoggingEnabled (component (snd (toggleLogging (healthy_backend [] example_stats) busy_world)))
       \<noteq> isLoggingEnabled (component busy_world)
   \<and> sent busy_world (snd (toggleLogging (healthy_backend [] example_stats) busy_world))
       = [Load_config, Save_config (example_config False), Set_proxy_monitor_enabled False]"
proof -
  let ?ok = "healthy_backend [] example_stats"
  note on = isLoggingEnabled_busy
  have c: "load_config config_down_backend = Inl unavailable"
    by (simp add: config_down_backend_def)
  have s1: "Save_config (example_config False)
       \<in> set (sent busy_world (snd (toggleLogging save_down_backend busy_world)))"
    by (simp add: toggleLogging_save_down [OF on] sent_def)
  have s2: "save_config save_down_backend (example_config False) = Inl unavailable"
    by (simp add: save_down_backend_def)
  have h1: "Set_proxy_monitor_enabled False
       \<in> set (sent busy_world (snd (toggleLogging ?ok busy_world)))"
    by (simp add: toggleLogging_healthy [OF on] sent_def)
  have h2: "isLoggingEnabled (component (snd (toggleLogging ?ok busy_world)))
       \<noteq> isLoggingEnabled (component busy_world)"
    by (simp add: toggleLogging_healthy [OF on] on)
  have h3: "sent busy_world (snd (toggleLogging ?ok busy_world))
       = [Load_config, Save_config (example_config False), Set_proxy_monitor_enabled False]"
    by (simp add: toggleLogging_healthy [OF on] sent_def)
  from C7_toggle_ordering [where be = config_down_backend and w = busy_world
      and e = unavailable, unfolded Let_def] c
  have 1: "component (snd (toggleLogging config_down_backend busy_world)) = component busy_world
     \<and> sent busy_world (snd (toggleLogging config_down_backend busy_world)) = [Load_config]"
    by simp
  from C7_toggle_ordering [where be = save_down_backend and w = busy_world
      and e = unavailable and cfg' = "example_config False", unfolded Let_def] s1 s2
  have 2: "component (snd (toggleLogging save_down_backend busy_world)) = component busy_world
     \<and> sent busy_world (snd (toggleLogging save_down_backend busy_world))
         = [Load_config, Save_config (example_config False)]"
    by simp
  from C7_toggle_ordering [where be = ?ok and w = busy_world and b = False,
      unfolded Let_def] h1 h2
  have 3: "sent busy_world (snd (toggleLogging ?ok busy_world)) \<noteq> []"
    by auto
  from c s1 s2 h1 h2 h3 1 2 3 show ?thesis by simp
qed


section \<open>Properties of the clear command\<close>

lemma clearLogs_confirmed_ok:
  "ask be = Inr True \<Longrightarrow> clear_proxy_logs be = Inr () \<Longrightarrow>
   clearLogs be w =
     (Inr (), w\<lparr>issued := issued w @ [Clear_proxy_logs],
               component := (component w)\<lparr>logs := [], stats := zero_stats\<rparr>\<rparr>)"
  by (simp add: clearLogs_def prog_defs zero_stats_def)

lemma clearLogs_confirmed_fails:
  "ask be = Inr True \<Longrightarrow> clear_proxy_logs be = Inl e \<Longrightarrow>
   clearLogs be w =
     (Inr (), w\<lparr>issued := issued w @ [Clear_proxy_logs],
               console := console w @ [(''Failed to clear logs'', e)]\<rparr>)"
  by (simp add: clearLogs_def prog_defs)

lemma clearLogs_declined: "ask be = Inr False \<Longrightarrow> clearLogs be w = (Inr (), w)"
  by (simp add: clearLogs_def prog_defs)

lemma clearLogs_dialog_fails: "ask be = Inl e \<Longrightarrow> clearLogs be w = (Inl e, w)"
  by (simp add: clearLogs_def prog_defs)

lemma clearLogs_changed:
  "component (snd (clearLogs be w)) \<noteq> component w \<Longrightarrow>
   ask be = Inr True \<and> clear_proxy_logs be = Inr ()"
  by (auto simp add: clearLogs_def prog_defs
      split: sum.splits option.splits prod.splits if_splits)

lemma logs_busy: "length (logs (component busy_world)) = 3"
proof -
  have "numbered_logs 3 \<noteq> []"
    using numbered_logs_length [of 3] by auto
  then show ?thesis
    by (simp add: busy_world_def deliver_logs numbered_logs_length initial_state_def)
qed

text \<open>
  Claim C8. \<open>clearLogs\<close> empties the store and zeroes the stats when the dialog is
  confirmed and the durable clear succeeds, and only then: whenever the state of the
  component changes, both have happened. When the durable clear fails, the state of the
  component is exactly as before, the failure is logged, the command has been sent once
  and \<open>clearLogs\<close> completes; when the dialog is declined nothing happens at all.
\<close>

theorem C8_clear_semantics:
  "(let w' = snd (clearLogs be w) in
      (ask be = Inr True \<and> clear_proxy_logs be = Inr () \<longrightarrow>
         logs (component w') = [] \<and> stats (component w') = zero_stats
         \<and> sent w w' = [Clear_proxy_logs])
      \<and> (ask be = Inr True \<and> clear_proxy_logs be = Inl e \<longrightarrow>
           component w' = component w
           \<and> sent w w' = [Clear_proxy_logs]
           \<and> console w' = console w @ [(''Failed to clear logs'', e)]
           \<and> fst (clearLogs be w) = Inr ())
      \<and> (ask be = Inr False \<longrightarrow> w' = w)
      \<and> (component w' \<noteq> component w \<longrightarrow>
           ask be = Inr True \<and> clear_proxy_logs be = Inr ()))"
  unfolding Let_def
proof (intro conjI impI)
  assume "ask be = Inr True \<and> clear_proxy_logs be = Inr ()"
  then have *: "clearLogs be w =
     (Inr (), w\<lparr>issued := issued w @ [Clear_proxy_logs],
               component := (component w)\<lparr>logs := [], stats := zero_stats\<rparr>\<rparr>)"
    using clearLogs_confirmed_ok [where be = be and w = w] by blast
  show "logs (component (snd (clearLogs be w))) = []" by (simp add: *)
  show "stats (component (snd (clearLogs be w))) = zero_stats" by (simp add: *)
  show "sent w (snd (clearLogs be w)) = [Clear_proxy_logs]" by (simp add: * sent_def)
next
  assume "ask be = Inr True \<and> clear_proxy_logs be = Inl e"
  then have *: "clearLogs be w =
     (Inr (), w\<lparr>issued := issued w @ [Clear_proxy_logs],
               console := console w @ [(''Failed to clear logs'', e)]\<rparr>)"
    using clearLogs_confirmed_fails [where be = be and w = w and e = e] by blast
  show "component (snd (clearLogs be w)) = component w" by (simp add: *)
  show "sent w (snd (clearLogs be w)) = [Clear_proxy_logs]" by (simp add: * sent_def)
  show "console (snd (clearLogs be w)) = console w @ [(''Failed to clear logs'', e)]"
    by (simp add: *)
  show "fst (clearLogs be w) = Inr ()" by (simp add: *)
next
  assume "ask be = Inr False"
  then show "snd (clearLogs be w) = w" by (simp add: clearLogs_declined)
next
  assume *: "component (snd (clearLogs be w)) \<noteq> component w"
  from clearLogs_changed [OF *] show "ask be = Inr True" by (rule conjunct1)
  from clearLogs_changed [OF *] show "clear_proxy_logs be = Inr ()" by (rule conjunct2)
qed

theorem C8_clear_semantics_witness:
  "ask clear_down_backend = Inr True
   \<and> clear_proxy_logs clear_down_backend = Inl unavailable
   \<and> component (snd (clearLogs clear_down_backend busy_world)) = component busy_world
   \<and> sent busy_world (snd (clearLogs clear_down_backend busy_world)) = [Clear_proxy_logs]
   \<and> ask (healthy_backend [] example_stats) = Inr True
   \<and> clear_proxy_logs (healthy_backend [] example_stats) = Inr ()
   \<and> logs (component (snd (clearLogs (healthy_backend [] example_stats) busy_world))) = []
   \<and> stats (component (snd (clearLogs (healthy_backend [] example_stats) busy_world)))
       = zero_stats
   \<and> component (snd (clearLogs (healthy_backend [] example_stats) busy_world))
       \<noteq> component busy_world
   \<and> ask ((healthy_backend [] example_stats)\<lparr>ask := Inr False\<rparr>) = Inr False
   \<and> snd (clearLogs ((healthy_backend [] example_stats)\<lparr>ask := Inr False\<rparr>) busy_world)
       = busy_world"
proof -
  let ?ok = "healthy_backend [] example_stats"
  let ?no = "(healthy_backend [] example_stats)\<lparr>ask := Inr False\<rparr>"
  have d: "ask clear_down_backend = Inr True \<and> clear_proxy_logs clear_down_backend = Inl unavailable"
    by (simp add: clear_down_backend_def healthy_backend_def)
  have k: "ask ?ok = Inr True \<and> clear_proxy_logs ?ok = Inr ()"
    by (simp add: healthy_backend_def)
  have n: "ask ?no = Inr False"
    by simp
  note t1 = C8_clear_semantics [where be = clear_down_backend and w = busy_world
      and e = unavailable, unfolded Let_def]
  note t2 = C8_clear_semantics [where be = ?ok and w = busy_world and e = unavailable,
      unfolded Let_def]
  note t3 = C8_clear_semantics [where be = ?no and w = busy_world and e = unavailable,
      unfolded Let_def]
  from t1 d
  have 1: "component (snd (clearLogs clear_down_backend busy_world)) = component busy_world
     \<and> sent busy_world (snd (clearLogs clear_down_backend busy_world)) = [Clear_proxy_logs]"
    by simp
  from t2 k
  have 2: "logs (component (snd (clearLogs ?ok busy_world))) = []
     \<and> stats (component (snd (clearLogs ?ok busy_world))) = zero_stats"
    by simp
  have "logs (component (snd (clearLogs ?ok busy_world))) \<noteq> logs (component busy_world)"
    using 2 logs_busy by auto
  then have 3: "component (snd (clearLogs ?ok busy_world)) \<noteq> component busy_world"
    by auto
  from t3 n
  have 4: "snd (clearLogs ?no busy_world) = busy_world"
    by simp
  from d k n 1 2 3 4 show ?thesis by simp
qed

end
